theory Spec2Isabelle
  imports Main
begin

section \<open>JavaScript values, objects and the network\<close>

text \<open>
  The dashboard is the script \<^verbatim>\<open>static/js/main.js\<close> followed by the relay plugin's
  script (the part of the same source file after line 1092). Both are classic scripts
  (sloppy mode) running on the single browser event loop: a function body runs without
  interruption between two \<^verbatim>\<open>await\<close>s. Every operation below is therefore a function
  from the page state to the page state, given the way its \<^verbatim>\<open>fetch\<close> settles. An
  operation is run to its end in one go (no other event between its call and the
  settling of its request), except \<^verbatim>\<open>toggleRelay\<close> and \<^verbatim>\<open>updateStatus\<close>, whose
  parts before and after each \<^verbatim>\<open>await\<close> are also given one by one, to be interleaved
  with other events. A function that can end by throwing returns the page it leaves and
  the error, if any, that its promise rejects with.

  Values that the code only passes through (numbers, config values) are an opaque type
  \<open>'j\<close>; the built-ins the code applies to them are the fields of \<open>js\<close>.
\<close>

record 'j js =
  toFixed :: "'j \<Rightarrow> nat \<Rightarrow> string option"
    \<comment> \<open>\<^verbatim>\<open>x.toFixed(d)\<close>; \<open>None\<close> when \<open>x\<close> is not a number (a TypeError)\<close>
  to_string :: "'j \<Rightarrow> string"
    \<comment> \<open>what a template literal writes for \<open>x\<close>\<close>
  truthy :: "'j \<Rightarrow> bool"
  positive :: "'j \<Rightarrow> bool"
    \<comment> \<open>\<^verbatim>\<open>x > 0\<close>\<close>
  above_one :: "'j \<Rightarrow> bool"
    \<comment> \<open>\<^verbatim>\<open>x > 1\<close>\<close>
  layer_info :: "'j \<Rightarrow> 'j \<Rightarrow> string"
    \<comment> \<open>the text of lines 1038-1041 for a progress and a byte total (floating point)\<close>
  time_left :: "nat \<Rightarrow> nat \<Rightarrow> 'j \<Rightarrow> string"
    \<comment> \<open>the text of lines 1051-1054 for \<^verbatim>\<open>Date.now()\<close>, \<^verbatim>\<open>printStartTime\<close> and a progress\<close>
  format_size :: "'j \<Rightarrow> string"
    \<comment> \<open>\<^verbatim>\<open>formatSize(bytes)\<close>, lines 778-782 (floating point)\<close>

text \<open>A thrown JavaScript \<^verbatim>\<open>Error\<close>, with its message.\<close>

datatype exn = Error (exn_message: string)

text \<open>
  An object is an association list in insertion order, which is the order
  \<^verbatim>\<open>Object.entries\<close> gives for keys that are not array indices. Keys inherited from
  \<^verbatim>\<open>Object.prototype\<close> are outside the model.
\<close>

fun obj_set :: "'k \<Rightarrow> 'v \<Rightarrow> ('k \<times> 'v) list \<Rightarrow> ('k \<times> 'v) list" where
  "obj_set k v [] = [(k, v)]"
| "obj_set k v ((k', v') # xs) = (if k' = k then (k, v) # xs else (k', v') # obj_set k v xs)"

fun obj_modify :: "'k \<Rightarrow> ('v \<Rightarrow> 'v) \<Rightarrow> ('k \<times> 'v) list \<Rightarrow> ('k \<times> 'v) list" where
  "obj_modify k f [] = []"
| "obj_modify k f ((k', v') # xs) = (if k' = k then (k, f v') # xs else (k', v') # obj_modify k f xs)"

text \<open>
  \<^verbatim>\<open>configData\<close>: section, then key, then value. Under the section \<^verbatim>\<open>plugins\<close> the
  keys are plugin names and the values are objects again (\<open>Node\<close>).
\<close>

datatype 'j slot = Leaf 'j | Node "(string \<times> 'j) list"

type_synonym 'j config_data = "(string \<times> (string \<times> 'j slot) list) list"

text \<open>The body of a request, before \<^verbatim>\<open>JSON.stringify\<close>.\<close>

datatype 'j body =
    NoBody
  | FormFiles "string list"
  | JsonFilename string
  | JsonDistance 'j
  | JsonConfigEntry string string "'j slot"
  | JsonPluginConfig "'j slot"
  | JsonResetAll
  | JsonCleanup

datatype 'j request = Request (req_method: string) (req_url: string) (req_body: "'j body")

text \<open>
  How a \<^verbatim>\<open>fetch\<close> settles: the promise rejects (network or transport failure), or it
  resolves to a response with its \<^verbatim>\<open>ok\<close> flag, its status and the outcome of
  \<^verbatim>\<open>response.json()\<close> (\<open>Inl\<close>: the body is not JSON and \<^verbatim>\<open>json()\<close> rejects).
\<close>

datatype 'b fetch_result = Rejected string | Response bool nat "string + 'b"

text \<open>
  The JSON record the backend answers with. \<open>message\<close> and \<open>error\<close> are strings or
  absent (\<open>None\<close> is \<^verbatim>\<open>undefined\<close>).
\<close>

record 'j reply =
  success :: bool
  message :: "string option"
  error :: "string option"
  relay_state :: bool
  total_uploaded :: 'j
  total_errors :: 'j
  deleted_count :: 'j

text \<open>The payload of \<^verbatim>\<open>/api/status\<close>.\<close>

record 'j print_status_payload =
  state :: string
  progress_percent :: 'j
  total_bytes :: 'j

record 'j status_payload =
  connected :: bool
  print_status :: "'j print_status_payload option"
  z_position :: 'j
  selected_file :: "string option"



text \<open>
  What the file list shows. The markup itself is not kept: the placeholder of the
  template, the two notices of \<^verbatim>\<open>updateFiles\<close>, or one item for each file with its
  name, its formatted size and its date.
\<close>

datatype file_list_view =
    Loading_files
  | No_files_found
  | Error_loading_files
  | File_items "(string \<times> string \<times> string) list"

text \<open>
  The answers the settings tabs are drawn from. The markup that a template literal
  builds from a body is not computed here; a body is given with that markup, or with
  \<open>None\<close> where building it throws (a field the template reads is missing).
  \<^verbatim>\<open>config_reply\<close> answers \<^verbatim>\<open>/api/config/app\<close> and holds the form of each of the
  three tabs drawn from it; \<^verbatim>\<open>plugins_reply\<close> answers \<^verbatim>\<open>/api/config/plugins/list\<close>;
  \<^verbatim>\<open>tabs_reply\<close> answers \<^verbatim>\<open>/api/config/ui/config_tabs\<close>.
\<close>

record config_reply =
  general_form :: "string option"
  printer_form :: "string option"
  interface_form :: "string option"

record plugins_reply =
  plugins_success :: bool
  plugins_markup :: "string option"

datatype tab_content = No_content | Bad_content | Form_content string

record plugin_tab =
  tab_id :: string
  tab_button :: string
    \<comment> \<open>the \<^verbatim>\<open>innerHTML\<close> of the tab's button (icon and title)\<close>
  tab_form :: tab_content
    \<comment> \<open>\<^verbatim>\<open>tab.content\<close>: falsy, or what \<^verbatim>\<open>generatePluginTabContent\<close> makes of it
      (\<open>Bad_content\<close>: it throws)\<close>

record tabs_reply =
  tabs_success :: bool
  tabs :: "plugin_tab list option"
    \<comment> \<open>\<open>None\<close>: no array \<^verbatim>\<open>tabs\<close> in the answer\<close>

text \<open>
  A relay button, as \<^verbatim>\<open>updateRelayButtonState\<close> sees the element its selector finds:
  the \<^verbatim>\<open>class\<close> attribute and what the inline style holds (\<open>[]\<close>: not set).
\<close>

record relay_button =
  className :: string
  icon_color :: "string option"
    \<comment> \<open>\<^verbatim>\<open>style.color\<close> of the \<^verbatim>\<open>i\<close> inside; \<open>None\<close>: the button has no \<^verbatim>\<open>i\<close> element\<close>
  background :: string
    \<comment> \<open>\<^verbatim>\<open>style.background\<close>\<close>
  borderColor :: string
    \<comment> \<open>\<^verbatim>\<open>style.borderColor\<close>\<close>

section \<open>The page\<close>

text \<open>
  The globals of the two scripts, the parts of the document they write, the clock they
  read and the log of what they send. \<open>alertArea\<close> holds every toast \<^verbatim>\<open>showAlert\<close>
  appended, in order (the timer that removes a toast four seconds later is real time and
  is left out). \<open>clock\<close> is the sequence of readings of the system clock: the \<open>n\<close>-th
  reading gives \<^verbatim>\<open>Date.now()\<close> and the \<^verbatim>\<open>toLocaleTimeString()\<close> of that instant.
\<close>

record 'j page =
  selectedFile :: "string option"
  printStartTime :: "nat option"
  consoleLines :: "(string \<times> string) list"
  currentConfigTab :: string
  configData :: "'j config_data"
  relayToggling :: bool
  clock :: "nat \<Rightarrow> nat \<times> string"
  clock_reads :: nat
  requests :: "'j request list"
  console_error :: "(string \<times> string) list"
  alertArea :: "(string option \<times> string) list"
  consoleArea :: string
  configModal_active :: bool
  printingOverlay_active :: bool
  connectionStatus :: "string \<times> string"
  printStatus :: "string \<times> string"
  progressStatus :: string
  progressBar_width :: string
  zPosition :: string
  connectBtn_disabled :: bool
  disconnectBtn_disabled :: bool
  startBtn_disabled :: bool
  pauseBtn_disabled :: bool
  resumeBtn_disabled :: bool
  stopBtn_disabled :: bool
  printingFileName :: string
  printingLayerInfo :: string
  printingProgress :: string
  printingZPos :: string
  printingTimeLeft :: string
  printingBytes :: string
  relay_buttons :: "string \<Rightarrow> relay_button option"
  fileList :: file_list_view
  totalFiles :: string
  totalSize :: string
  storageStats_display :: string
  configContent :: string
  plugin_tabs :: "(string \<times> string) list"

section \<open>Toasts and the console\<close>

definition showAlert :: "string option \<Rightarrow> string \<Rightarrow> 'j page \<Rightarrow> 'j page" where
  "showAlert msg type s = s\<lparr>alertArea := alertArea s @ [(msg, type)]\<rparr>"

definition console_line_html :: "string \<times> string \<Rightarrow> string" where
  \<open>console_line_html line =
     ''<div class="console-line '' @ snd line @ ''">'' @ fst line @ ''</div>''\<close>

definition updateConsole :: "'j page \<Rightarrow> 'j page" where
  "updateConsole s = s\<lparr>consoleArea := concat (map console_line_html (consoleLines s))\<rparr>"

text \<open>
  \<^verbatim>\<open>addConsoleMessage(message, type = '')\<close>: push, then drop the first line when there
  are more than 50. The limit is the literal 50; \<^verbatim>\<open>configData\<close> and the
  \<^verbatim>\<open>console_max_lines\<close> setting are not read.
\<close>

definition push_line :: "string \<times> string \<Rightarrow> (string \<times> string) list \<Rightarrow> (string \<times> string) list" where
  "push_line line ls = (let ls' = ls @ [line] in if length ls' > 50 then tl ls' else ls')"

definition addConsoleMessage :: "string \<Rightarrow> string \<Rightarrow> 'j page \<Rightarrow> 'j page" where
  "addConsoleMessage msg type s =
     (let timestamp = snd (clock s (clock_reads s));
          line = ''['' @ timestamp @ ''] '' @ msg
      in updateConsole
           (s\<lparr>clock_reads := Suc (clock_reads s),
              consoleLines := push_line (line, type) (consoleLines s)\<rparr>))"

text \<open>A sequence of \<^verbatim>\<open>addConsoleMessage\<close> calls, each with its message and type.\<close>

fun console_calls :: "(string \<times> string) list \<Rightarrow> 'j page \<Rightarrow> 'j page" where
  "console_calls [] s = s"
| "console_calls ((msg, type) # calls) s = console_calls calls (addConsoleMessage msg type s)"

section \<open>Strings, requests and awaiting\<close>

text \<open>The decimal text of a number, as a template literal writes it.\<close>

function decimal :: "nat \<Rightarrow> string" where
  "decimal n =
     (if n < 10 then [''0123456789'' ! n]
      else decimal (n div 10) @ [''0123456789'' ! (n mod 10)])"
  by pat_completeness auto
termination
  by (relation "measure id") auto

declare decimal.simps [simp del]

text \<open>A string that may be \<^verbatim>\<open>undefined\<close>, inside a template literal.\<close>

definition js_str :: "string option \<Rightarrow> string" where
  "js_str x = (case x of None \<Rightarrow> ''undefined'' | Some t \<Rightarrow> t)"

text \<open>Truthiness of a string that may be \<^verbatim>\<open>undefined\<close> or \<^verbatim>\<open>null\<close>: present and not empty.\<close>

definition truthy_string :: "string option \<Rightarrow> bool" where
  "truthy_string x = (case x of None \<Rightarrow> False | Some t \<Rightarrow> t \<noteq> [])"

text \<open>\<^verbatim>\<open>fetch(url, {method, body})\<close> sends the request at once; the log keeps it.\<close>

definition fetch :: "string \<Rightarrow> string \<Rightarrow> 'j body \<Rightarrow> 'j page \<Rightarrow> 'j page" where
  "fetch method url b s = s\<lparr>requests := requests s @ [Request method url b]\<rparr>"

text \<open>
  \<^verbatim>\<open>const response = await fetch(...); const result = await response.json();\<close>
  with no look at \<^verbatim>\<open>response.ok\<close>: either \<^verbatim>\<open>await\<close> may throw.
\<close>

definition await_json :: "'b fetch_result \<Rightarrow> exn + 'b" where
  "await_json r =
     (case r of
        Rejected m \<Rightarrow> Inl (Error m)
      | Response ok status b \<Rightarrow> (case b of Inl m \<Rightarrow> Inl (Error m) | Inr v \<Rightarrow> Inr v))"

text \<open>
  The same with \<^verbatim>\<open>if (!response.ok) throw new Error(`HTTP error! status: ...`)\<close>
  between the two (the relay script).
\<close>

definition await_ok_json :: "'b fetch_result \<Rightarrow> exn + 'b" where
  "await_ok_json r =
     (case r of
        Rejected m \<Rightarrow> Inl (Error m)
      | Response ok status b \<Rightarrow>
          if \<not> ok then Inl (Error (''HTTP error! status: '' @ decimal status))
          else (case b of Inl m \<Rightarrow> Inl (Error m) | Inr v \<Rightarrow> Inr v))"

text \<open>\<^verbatim>\<open>console.error(label, detail)\<close>.\<close>

definition log_error :: "string \<Rightarrow> string \<Rightarrow> 'j page \<Rightarrow> 'j page" where
  "log_error label detail s = s\<lparr>console_error := console_error s @ [(label, detail)]\<rparr>"

text \<open>\<^verbatim>\<open>result.success ? 'success' : 'error'\<close>.\<close>

definition alert_type :: "'j reply \<Rightarrow> string" where
  "alert_type result = (if success result then ''success'' else ''error'')"

section \<open>The settings modal\<close>

text \<open>
  \<^verbatim>\<open>loadConfigTab\<close> and \<^verbatim>\<open>updateFiles\<close> are called without \<^verbatim>\<open>await\<close>: what the
  caller sees is the request they send at once (\<open>loadConfigTab_send\<close>,
  \<open>updateFiles_send\<close>). What they do when the answers have come is given further
  down, where they are run to their end.
\<close>

definition loadConfigTab_send :: "string \<Rightarrow> 'j page \<Rightarrow> 'j page" where
  "loadConfigTab_send tabName s =
     (if tabName = ''general'' \<or> tabName = ''printer'' \<or> tabName = ''interface''
        then fetch ''GET'' ''/api/config/app'' NoBody s
      else if tabName = ''plugins'' then fetch ''GET'' ''/api/config/plugins/list'' NoBody s
      else fetch ''GET'' ''/api/config/ui/config_tabs'' NoBody s)"

definition updateFiles_send :: "'j page \<Rightarrow> 'j page" where
  "updateFiles_send s = fetch ''GET'' ''/api/files'' NoBody s"

definition openConfigModal :: "'j page \<Rightarrow> 'j page" where
  "openConfigModal s = loadConfigTab_send (currentConfigTab s) (s\<lparr>configModal_active := True\<rparr>)"

definition closeConfigModal :: "'j page \<Rightarrow> 'j page" where
  "closeConfigModal s = s\<lparr>configModal_active := False\<rparr>"

text \<open>
  \<^verbatim>\<open>if (!configData[section]) configData[section] = {}; configData[section][key] = value;\<close>
\<close>

definition updateConfigValue :: "string \<Rightarrow> string \<Rightarrow> 'j \<Rightarrow> 'j page \<Rightarrow> 'j page" where
  "updateConfigValue section key v s =
     (let cd = (if map_of (configData s) section = None
                then obj_set section [] (configData s) else configData s)
      in s\<lparr>configData := obj_modify section (obj_set key (Leaf v)) cd\<rparr>)"

text \<open>
  \<^verbatim>\<open>updatePluginConfigValue\<close>. An entry under \<^verbatim>\<open>plugins\<close> that holds a truthy
  primitive (only \<^verbatim>\<open>updateConfigValue('plugins', ...)\<close> can put one there) keeps it:
  in sloppy mode the assignment to a property of a primitive is dropped.
\<close>

definition set_plugin_key :: "string \<Rightarrow> 'j \<Rightarrow> 'j slot \<Rightarrow> 'j slot" where
  "set_plugin_key key v sl = (case sl of Leaf x \<Rightarrow> Leaf x | Node kvs \<Rightarrow> Node (obj_set key v kvs))"

definition ensure_plugin :: "'j js \<Rightarrow> string \<Rightarrow> (string \<times> 'j slot) list \<Rightarrow> (string \<times> 'j slot) list" where
  "ensure_plugin js pluginName plugins =
     (case map_of plugins pluginName of
        None \<Rightarrow> obj_set pluginName (Node []) plugins
      | Some (Leaf x) \<Rightarrow> if truthy js x then plugins else obj_set pluginName (Node []) plugins
      | Some (Node kvs) \<Rightarrow> plugins)"

definition updatePluginConfigValue ::
  "'j js \<Rightarrow> string \<Rightarrow> string \<Rightarrow> 'j \<Rightarrow> 'j page \<Rightarrow> 'j page" where
  "updatePluginConfigValue js pluginName key v s =
     (let cd = (if map_of (configData s) ''plugins'' = None
                then obj_set ''plugins'' [] (configData s) else configData s)
      in s\<lparr>configData :=
            obj_modify ''plugins''
              (\<lambda>plugins. obj_modify pluginName (set_plugin_key key v)
                            (ensure_plugin js pluginName plugins)) cd\<rparr>)"

text \<open>
  \<^verbatim>\<open>saveConfig\<close>: the two loops push one \<^verbatim>\<open>fetch\<close> each time round, then
  \<^verbatim>\<open>Promise.all\<close> is awaited. \<open>net i\<close> is how the \<open>i\<close>-th of these requests settles.
  \<^verbatim>\<open>Promise.all\<close> rejects with the reason of the first promise that rejects; the model
  takes the first in the order of sending (this only decides the text of the toast).
\<close>

fun save_section ::
  "string \<Rightarrow> (string \<times> 'j slot) list \<Rightarrow> 'j request list \<Rightarrow> 'j request list" where
  "save_section section [] promises = promises"
| "save_section section ((key, v) # rest) promises =
     save_section section rest
       (promises @ [Request ''POST'' ''/api/config/app'' (JsonConfigEntry section key v)])"

fun save_app :: "'j config_data \<Rightarrow> 'j request list \<Rightarrow> 'j request list" where
  "save_app [] promises = promises"
| "save_app ((section, sectionData) # rest) promises =
     (if section = ''plugins'' then save_app rest promises
      else save_app rest (save_section section sectionData promises))"

fun save_plugins :: "(string \<times> 'j slot) list \<Rightarrow> 'j request list \<Rightarrow> 'j request list" where
  "save_plugins [] promises = promises"
| "save_plugins ((pluginName, pluginConfig) # rest) promises =
     save_plugins rest
       (promises @ [Request ''POST'' (''/api/config/plugins/'' @ pluginName)
                      (JsonPluginConfig pluginConfig)])"

definition save_promises :: "'j config_data \<Rightarrow> 'j request list" where
  "save_promises cd =
     (let promises = save_app cd []
      in case map_of cd ''plugins'' of
           None \<Rightarrow> promises
         | Some plugins \<Rightarrow> save_plugins plugins promises)"

definition rejection :: "'b fetch_result \<Rightarrow> string option" where
  "rejection r = (case r of Rejected m \<Rightarrow> Some m | Response ok status b \<Rightarrow> None)"

definition promise_all :: "nat \<Rightarrow> (nat \<Rightarrow> 'b fetch_result) \<Rightarrow> string option" where
  "promise_all n net =
     (case List.map_filter (\<lambda>i. rejection (net i)) [0..<n] of [] \<Rightarrow> None | m # ms \<Rightarrow> Some m)"

definition saveConfig :: "(nat \<Rightarrow> 'b fetch_result) \<Rightarrow> 'j page \<Rightarrow> 'j page \<times> exn option" where
  "saveConfig net s =
     (let promises = save_promises (configData s);
          s1 = s\<lparr>requests := requests s @ promises\<rparr>
      in case promise_all (length promises) net of
           None \<Rightarrow>
             (closeConfigModal
                ((showAlert (Some ''Configuration saved successfully'') ''success'' s1)
                   \<lparr>configData := []\<rparr>), None)
         | Some m \<Rightarrow>
             (showAlert (Some (''Error saving configuration: '' @ m)) ''error'' s1, None))"

text \<open>
  The claim's words: one POST to \<^verbatim>\<open>/api/config/app\<close> for every (section, key, value)
  entry outside \<^verbatim>\<open>plugins\<close>, one POST to \<^verbatim>\<open>/api/config/plugins/<name>\<close> for
  every plugin entry.
\<close>

definition app_entries :: "'j config_data \<Rightarrow> (string \<times> string \<times> 'j slot) list" where
  "app_entries cd =
     concat (map (\<lambda>(section, sectionData).
                    if section = ''plugins'' then []
                    else map (\<lambda>(key, v). (section, key, v)) sectionData) cd)"

definition plugin_entries :: "'j config_data \<Rightarrow> (string \<times> 'j slot) list" where
  "plugin_entries cd = (case map_of cd ''plugins'' of None \<Rightarrow> [] | Some plugins \<Rightarrow> plugins)"

definition flush_requests :: "'j config_data \<Rightarrow> 'j request list" where
  "flush_requests cd =
     map (\<lambda>(section, key, v). Request ''POST'' ''/api/config/app'' (JsonConfigEntry section key v))
       (app_entries cd)
     @ map (\<lambda>(pluginName, pluginConfig).
              Request ''POST'' (''/api/config/plugins/'' @ pluginName) (JsonPluginConfig pluginConfig))
         (plugin_entries cd)"

definition all_resolve :: "nat \<Rightarrow> (nat \<Rightarrow> 'b fetch_result) \<Rightarrow> bool" where
  "all_resolve n net = list_all (\<lambda>i. rejection (net i) = None) [0..<n]"

definition resetConfig :: "bool \<Rightarrow> 'j reply fetch_result \<Rightarrow> 'j page \<Rightarrow> 'j page \<times> exn option" where
  "resetConfig confirmed r s =
     (if \<not> confirmed then (s, None)
      else
        let s1 = fetch ''POST'' ''/api/config/reset'' JsonResetAll s
        in case await_json r of
             Inl e \<Rightarrow>
               (showAlert (Some (''Error resetting configuration: '' @ exn_message e)) ''error'' s1,
                None)
           | Inr result \<Rightarrow>
               if success result then
                 (loadConfigTab_send (currentConfigTab s1)
                    ((showAlert (Some ''Configuration reset to defaults'') ''success'' s1)
                       \<lparr>configData := []\<rparr>), None)
               else (showAlert (Some ''Failed to reset configuration'') ''error'' s1, None))"

definition togglePlugin ::
  "string \<Rightarrow> bool \<Rightarrow> 'j reply fetch_result \<Rightarrow> 'j page \<Rightarrow> 'j page \<times> exn option" where
  "togglePlugin pluginName enable r s =
     (let action = (if enable then ''enable'' else ''disable'');
          s1 = fetch ''POST'' (''/api/config/plugins/'' @ pluginName @ ''/'' @ action) NoBody s
      in case await_json r of
           Inl e \<Rightarrow>
             (showAlert (Some (''Error '' @ (if enable then ''enabling'' else ''disabling'')
                                @ '' plugin: '' @ exn_message e)) ''error'' s1, None)
         | Inr result \<Rightarrow>
             if success result then
               (let s2 = showAlert (message result) ''success'' s1
                in if currentConfigTab s2 = ''plugins'' then loadConfigTab_send ''plugins'' s2 else s2,
                None)
             else (showAlert (error result) ''error'' s1, None))"

definition reloadPlugin ::
  "string \<Rightarrow> 'j reply fetch_result \<Rightarrow> 'j page \<Rightarrow> 'j page \<times> exn option" where
  "reloadPlugin pluginName r s =
     (let s1 = fetch ''POST'' (''/api/config/plugins/'' @ pluginName @ ''/reload'') NoBody s
      in case await_json r of
           Inl e \<Rightarrow>
             (showAlert (Some (''Error reloading plugin: '' @ exn_message e)) ''error'' s1, None)
         | Inr result \<Rightarrow>
             if success result then
               (let s2 = showAlert (message result) ''success'' s1
                in if currentConfigTab s2 = ''plugins'' then loadConfigTab_send ''plugins'' s2 else s2,
                None)
             else (showAlert (error result) ''error'' s1, None))"


section \<open>Files\<close>

definition uploadFiles ::
  "'j js \<Rightarrow> string list \<Rightarrow> 'j reply fetch_result \<Rightarrow> 'j page \<Rightarrow> 'j page \<times> exn option" where
  "uploadFiles js files r s =
     (let s1 = showAlert (Some ''Uploading...'') ''warning'' s;
          s2 = addConsoleMessage (''Uploading '' @ decimal (length files) @ '' file(s)...'') '''' s1;
          s3 = fetch ''POST'' ''/api/upload'' (FormFiles files) s2
      in case await_json r of
           Inl e \<Rightarrow>
             (addConsoleMessage (''Upload error: '' @ exn_message e) ''error''
                (showAlert (Some (''Upload error: '' @ exn_message e)) ''error'' s3), None)
         | Inr result \<Rightarrow>
             if success result then
               (let s4 = showAlert (Some (''Uploaded '' @ to_string js (total_uploaded result)
                                           @ '' files successfully'')) ''success'' s3;
                    s5 = addConsoleMessage (''Successfully uploaded ''
                           @ to_string js (total_uploaded result) @ '' file(s)'') ''success'' s4;
                    s6 = (if positive js (total_errors result)
                          then addConsoleMessage (to_string js (total_errors result)
                                 @ '' file(s) failed to upload'') ''warning'' s5
                          else s5)
                in updateFiles_send s6, None)
             else
               (addConsoleMessage ''Upload failed'' ''error''
                  (showAlert (Some ''Upload failed'') ''error'' s3), None))"

definition cleanupFiles ::
  "'j js \<Rightarrow> bool \<Rightarrow> 'j reply fetch_result \<Rightarrow> 'j page \<Rightarrow> 'j page \<times> exn option" where
  "cleanupFiles js confirmed r s =
     (if \<not> confirmed then (s, None)
      else
        let s1 = addConsoleMessage ''Starting file cleanup...'' '''' s;
            s2 = fetch ''POST'' ''/api/cleanup_files'' JsonCleanup s1
        in case await_json r of
             Inl e \<Rightarrow>
               (addConsoleMessage (''Cleanup error: '' @ exn_message e) ''error''
                  (showAlert (Some (''Cleanup error: '' @ exn_message e)) ''error'' s2), None)
           | Inr result \<Rightarrow>
               if success result then
                 (updateFiles_send
                    (addConsoleMessage (js_str (message result)) ''success''
                       (showAlert (Some (''Cleanup completed: ''
                          @ to_string js (deleted_count result) @ '' files removed''))
                          ''success'' s2)), None)
               else
                 (addConsoleMessage (''Cleanup failed: '' @ js_str (error result)) ''error''
                    (showAlert (Some ''Cleanup failed'') ''error'' s2), None))"

section \<open>Printer actions\<close>

text \<open>
  These functions have no \<^verbatim>\<open>try\<close>: when an \<^verbatim>\<open>await\<close> throws, the promise the
  function returned rejects with that error (the second component of the result) and
  the rest of the body does not run.
\<close>

definition connectPrinter :: "'j reply fetch_result \<Rightarrow> 'j page \<Rightarrow> 'j page \<times> exn option" where
  "connectPrinter r s =
     (let s1 = addConsoleMessage ''Attempting to connect to printer...'' '''' s;
          s2 = fetch ''POST'' ''/api/connect'' NoBody s1
      in case await_json r of
           Inl e \<Rightarrow> (s2, Some e)
         | Inr result \<Rightarrow>
             let msg = (if truthy_string (message result) then message result
                        else if success result then Some ''Connected'' else error result)
             in (addConsoleMessage (js_str msg) (alert_type result)
                   (showAlert msg (alert_type result) s2), None))"

definition disconnectPrinter :: "'j reply fetch_result \<Rightarrow> 'j page \<Rightarrow> 'j page \<times> exn option" where
  "disconnectPrinter r s =
     (let s1 = addConsoleMessage ''Disconnecting from printer...'' '''' s;
          s2 = fetch ''POST'' ''/api/disconnect'' NoBody s1
      in case await_json r of
           Inl e \<Rightarrow> (s2, Some e)
         | Inr result \<Rightarrow>
             (addConsoleMessage (js_str (message result)) (alert_type result)
                (showAlert (message result) (alert_type result) s2), None))"

definition selectFile ::
  "string \<Rightarrow> 'j reply fetch_result \<Rightarrow> 'j page \<Rightarrow> 'j page \<times> exn option" where
  "selectFile filename r s =
     (let s1 = addConsoleMessage (''Selecting file: '' @ filename) '''' s;
          s2 = fetch ''POST'' ''/api/select_file'' (JsonFilename filename) s1
      in case await_json r of
           Inl e \<Rightarrow> (s2, Some e)
         | Inr result \<Rightarrow>
             if success result then
               (addConsoleMessage (''File selected: '' @ filename) ''success''
                  (showAlert (Some (''Selected: '' @ filename)) ''success''
                     (s2\<lparr>selectedFile := Some filename\<rparr>)), None)
             else
               (addConsoleMessage (''Failed to select file: '' @ js_str (error result)) ''error''
                  (showAlert (error result) ''error'' s2), None))"

definition printFile ::
  "string \<Rightarrow> 'j reply fetch_result \<Rightarrow> 'j page \<Rightarrow> 'j page \<times> exn option" where
  "printFile filename r s =
     (let s1 = addConsoleMessage (''Starting print: '' @ filename) '''' s;
          s2 = fetch ''POST'' ''/api/print_file'' (JsonFilename filename) s1
      in case await_json r of
           Inl e \<Rightarrow> (s2, Some e)
         | Inr result \<Rightarrow>
             (addConsoleMessage (js_str (message result)) (alert_type result)
                (showAlert (message result) (alert_type result) s2), None))"

text \<open>\<^verbatim>\<open>if (!selectedFile)\<close>: \<^verbatim>\<open>null\<close> and the empty name both count as no file.\<close>

definition startPrint :: "'j reply fetch_result \<Rightarrow> 'j page \<Rightarrow> 'j page \<times> exn option" where
  "startPrint r s =
     (case (if truthy_string (selectedFile s) then selectedFile s else None) of
        None \<Rightarrow>
          (addConsoleMessage ''Cannot start print - no file selected'' ''warning''
             (showAlert (Some ''No file selected'') ''warning'' s), None)
      | Some filename \<Rightarrow> printFile filename r s)"

definition pausePrint :: "'j reply fetch_result \<Rightarrow> 'j page \<Rightarrow> 'j page \<times> exn option" where
  "pausePrint r s =
     (let s1 = addConsoleMessage ''Pausing print...'' '''' s;
          s2 = fetch ''POST'' ''/api/pause'' NoBody s1
      in case await_json r of
           Inl e \<Rightarrow> (s2, Some e)
         | Inr result \<Rightarrow>
             (addConsoleMessage (js_str (message result)) (alert_type result)
                (showAlert (message result) (alert_type result) s2), None))"

definition resumePrint :: "'j reply fetch_result \<Rightarrow> 'j page \<Rightarrow> 'j page \<times> exn option" where
  "resumePrint r s =
     (let s1 = addConsoleMessage ''Resuming print...'' '''' s;
          s2 = fetch ''POST'' ''/api/resume'' NoBody s1
      in case await_json r of
           Inl e \<Rightarrow> (s2, Some e)
         | Inr result \<Rightarrow>
             (addConsoleMessage (js_str (message result)) (alert_type result)
                (showAlert (message result) (alert_type result) s2), None))"

definition stopPrint :: "bool \<Rightarrow> 'j reply fetch_result \<Rightarrow> 'j page \<Rightarrow> 'j page \<times> exn option" where
  "stopPrint confirmed r s =
     (if \<not> confirmed then (s, None)
      else
        let s1 = addConsoleMessage ''Stopping print...'' '''' s;
            s2 = fetch ''POST'' ''/api/stop'' NoBody s1
        in case await_json r of
             Inl e \<Rightarrow> (s2, Some e)
           | Inr result \<Rightarrow>
               (addConsoleMessage (js_str (message result)) (alert_type result)
                  (showAlert (message result) (alert_type result) s2), None))"

definition homeZ :: "'j reply fetch_result \<Rightarrow> 'j page \<Rightarrow> 'j page \<times> exn option" where
  "homeZ r s =
     (let s1 = addConsoleMessage ''Homing Z axis...'' '''' s;
          s2 = fetch ''POST'' ''/api/home_z'' NoBody s1
      in case await_json r of
           Inl e \<Rightarrow> (s2, Some e)
         | Inr result \<Rightarrow>
             (addConsoleMessage (js_str (message result)) (alert_type result)
                (showAlert (message result) (alert_type result) s2), None))"

definition moveZ :: "'j js \<Rightarrow> 'j \<Rightarrow> 'j reply fetch_result \<Rightarrow> 'j page \<Rightarrow> 'j page \<times> exn option" where
  "moveZ js distance r s =
     (let s1 = addConsoleMessage (''Moving Z axis '' @ to_string js distance @ ''mm...'') '''' s;
          s2 = fetch ''POST'' ''/api/move_z'' (JsonDistance distance) s1
      in case await_json r of
           Inl e \<Rightarrow> (s2, Some e)
         | Inr result \<Rightarrow>
             (addConsoleMessage (js_str (message result)) (alert_type result)
                (showAlert (message result) (alert_type result) s2), None))"

definition recoverUSB :: "'j reply fetch_result \<Rightarrow> 'j page \<Rightarrow> 'j page \<times> exn option" where
  "recoverUSB r s =
     (let s1 = addConsoleMessage ''Starting USB error recovery...'' '''' s;
          s2 = fetch ''POST'' ''/api/recover_usb_error'' NoBody s1
      in case await_json r of
           Inl e \<Rightarrow> (s2, Some e)
         | Inr result \<Rightarrow>
             (addConsoleMessage (js_str (message result)) (alert_type result)
                (showAlert (message result) (alert_type result) s2), None))"

definition deleteFile ::
  "bool \<Rightarrow> string \<Rightarrow> 'j reply fetch_result \<Rightarrow> 'j page \<Rightarrow> 'j page \<times> exn option" where
  "deleteFile confirmed filename r s =
     (if \<not> confirmed then (s, None)
      else
        let s1 = addConsoleMessage (''Deleting file: '' @ filename) '''' s;
            s2 = fetch ''POST'' ''/api/delete_file'' (JsonFilename filename) s1
        in case await_json r of
             Inl e \<Rightarrow> (s2, Some e)
           | Inr result \<Rightarrow>
               if success result then
                 (addConsoleMessage (''File deleted: '' @ filename) ''success''
                    (showAlert (Some ''File deleted'') ''success'' (updateFiles_send s2)), None)
               else
                 (addConsoleMessage (''Failed to delete file: '' @ js_str (error result)) ''error''
                    (showAlert (error result) ''error'' s2), None))"


section \<open>The file list, storage statistics and the settings tabs\<close>





text \<open>
  The three tabs drawn from \<^verbatim>\<open>/api/config/app\<close> (lines 123-304). Each function
  returns markup: the form, or in its \<^verbatim>\<open>catch\<close> a notice.
\<close>

definition generateGeneralConfig :: "config_reply fetch_result \<Rightarrow> 'j page \<Rightarrow> 'j page \<times> string" where
  \<open>generateGeneralConfig r s =
     (let s1 = fetch ''GET'' ''/api/config/app'' NoBody s;
          failed = ''<div class="alert alert-error">Failed to load general configuration</div>''
      in case await_json r of
           Inl e \<Rightarrow> (s1, failed)
         | Inr result \<Rightarrow>
             (case general_form result of None \<Rightarrow> (s1, failed) | Some form \<Rightarrow> (s1, form)))\<close>

definition generatePrinterConfig :: "config_reply fetch_result \<Rightarrow> 'j page \<Rightarrow> 'j page \<times> string" where
  \<open>generatePrinterConfig r s =
     (let s1 = fetch ''GET'' ''/api/config/app'' NoBody s;
          failed = ''<div class="alert alert-error">Failed to load printer configuration</div>''
      in case await_json r of
           Inl e \<Rightarrow> (s1, failed)
         | Inr result \<Rightarrow>
             (case printer_form result of None \<Rightarrow> (s1, failed) | Some form \<Rightarrow> (s1, form)))\<close>

definition generateInterfaceConfig :: "config_reply fetch_result \<Rightarrow> 'j page \<Rightarrow> 'j page \<times> string" where
  \<open>generateInterfaceConfig r s =
     (let s1 = fetch ''GET'' ''/api/config/app'' NoBody s;
          failed = ''<div class="alert alert-error">Failed to load interface configuration</div>''
      in case await_json r of
           Inl e \<Rightarrow> (s1, failed)
         | Inr result \<Rightarrow>
             (case interface_form result of None \<Rightarrow> (s1, failed) | Some form \<Rightarrow> (s1, form)))\<close>

text \<open>
  \<^verbatim>\<open>generatePluginsConfig\<close> (lines 306-384) sends a second request once the list of
  plugins has come, and replaces the plugin tabs of the modal when the answer has any.
\<close>

definition generatePluginsConfig ::
  "plugins_reply fetch_result \<Rightarrow> tabs_reply fetch_result \<Rightarrow> 'j page \<Rightarrow> 'j page \<times> string" where
  \<open>generatePluginsConfig r r' s =
     (let s1 = fetch ''GET'' ''/api/config/plugins/list'' NoBody s;
          failed = ''<div class="alert alert-error">Failed to load plugins configuration</div>''
      in case await_json r of
           Inl e \<Rightarrow> (s1, failed)
         | Inr result \<Rightarrow>
             if \<not> plugins_success result
               then (s1, ''<div class="alert alert-error">Failed to load plugins</div>'')
             else
               (case plugins_markup result of
                  None \<Rightarrow> (s1, failed)
                | Some html \<Rightarrow>
                    let s2 = fetch ''GET'' ''/api/config/ui/config_tabs'' NoBody s1
                    in case await_json r' of
                         Inl e \<Rightarrow> (s2, failed)
                       | Inr pluginTabsResult \<Rightarrow>
                           if \<not> tabs_success pluginTabsResult then (s2, html)
                           else
                             (case tabs pluginTabsResult of
                                None \<Rightarrow> (s2, failed)
                              | Some ts \<Rightarrow>
                                  if 0 < length ts
                                  then (s2\<lparr>plugin_tabs := map (\<lambda>tab. (tab_id tab, tab_button tab)) ts\<rparr>,
                                        html)
                                  else (s2, html))))\<close>

text \<open>\<^verbatim>\<open>loadPluginConfigTab\<close> (lines 386-401): its \<^verbatim>\<open>catch\<close> only logs.\<close>

definition loadPluginConfigTab :: "string \<Rightarrow> tabs_reply fetch_result \<Rightarrow> 'j page \<Rightarrow> 'j page" where
  "loadPluginConfigTab tabId r s =
     (let s1 = fetch ''GET'' ''/api/config/ui/config_tabs'' NoBody s
      in case await_json r of
           Inl e \<Rightarrow> log_error ''Error loading plugin config tab:'' (exn_message e) s1
         | Inr result \<Rightarrow>
             if \<not> tabs_success result then s1
             else
               (case tabs result of
                  None \<Rightarrow> log_error ''Error loading plugin config tab:'' ''TypeError'' s1
                | Some ts \<Rightarrow>
                    (case find (\<lambda>t. tab_id t = tabId) ts of
                       None \<Rightarrow> s1
                     | Some tab \<Rightarrow>
                         (case tab_form tab of
                            No_content \<Rightarrow> s1
                          | Bad_content \<Rightarrow>
                              log_error ''Error loading plugin config tab:'' ''TypeError'' s1
                          | Form_content form \<Rightarrow> s1\<lparr>configContent := form\<rparr>))))"





section \<open>The status poll\<close>

text \<open>
  \<^verbatim>\<open>showPrintingView\<close> and \<^verbatim>\<open>updateButtons\<close> read \<^verbatim>\<open>status.print_status\<close>; their
  caller has read it before, so they take it as \<open>ps\<close>. \<^verbatim>\<open>!printStartTime\<close> holds for
  \<^verbatim>\<open>null\<close> and for 0.
\<close>

definition showPrintingView :: "'j print_status_payload \<Rightarrow> 'j page \<Rightarrow> 'j page" where
  "showPrintingView ps s =
     (if \<not> printingOverlay_active s then
        let s1 = s\<lparr>printingOverlay_active := True\<rparr>
        in if state ps = ''PRINTING'' \<and> (printStartTime s1 = None \<or> printStartTime s1 = Some 0)
           then s1\<lparr>printStartTime := Some (fst (clock s1 (clock_reads s1))),
                   clock_reads := Suc (clock_reads s1)\<rparr>
           else s1
      else s)"

definition hidePrintingView :: "'j page \<Rightarrow> 'j page" where
  "hidePrintingView s = s\<lparr>printingOverlay_active := False, printStartTime := None\<rparr>"

definition closePrintingView :: "'j page \<Rightarrow> 'j page" where
  "closePrintingView s = hidePrintingView s"

definition updateButtons :: "bool \<Rightarrow> 'j print_status_payload \<Rightarrow> 'j page \<Rightarrow> 'j page" where
  "updateButtons conn ps s =
     (let printing = (state ps = ''PRINTING'');
          paused = (state ps = ''PAUSED'')
      in s\<lparr>connectBtn_disabled := conn,
           disconnectBtn_disabled := \<not> conn,
           startBtn_disabled := (\<not> conn \<or> printing \<or> paused \<or> \<not> truthy_string (selectedFile s)),
           pauseBtn_disabled := (\<not> conn \<or> \<not> printing),
           resumeBtn_disabled := (\<not> conn \<or> \<not> paused),
           stopBtn_disabled := (\<not> conn \<or> (\<not> printing \<and> \<not> paused))\<rparr>)"

text \<open>A \<^verbatim>\<open>toFixed\<close> on something that is not a number throws this.\<close>

definition type_error :: exn where
  "type_error = Error ''TypeError''"

definition updatePrintingOverlay ::
  "'j js \<Rightarrow> 'j status_payload \<Rightarrow> 'j print_status_payload \<Rightarrow> 'j page \<Rightarrow> 'j page \<times> exn option" where
  "updatePrintingOverlay js status ps s =
     (if \<not> printingOverlay_active s then (s, None)
      else
        let fileName = (if truthy_string (selected_file status) then js_str (selected_file status)
                        else if truthy_string (selectedFile s) then js_str (selectedFile s)
                        else ''Unknown File'');
            progress = progress_percent ps;
            s1 = s\<lparr>printingFileName := fileName,
                    printingLayerInfo := layer_info js progress (total_bytes ps)\<rparr>
        in case toFixed js progress 0 of
             None \<Rightarrow> (s1, Some type_error)
           | Some p0 \<Rightarrow>
               let s2 = s1\<lparr>printingProgress := p0 @ ''%''\<rparr>
               in case toFixed js (z_position status) 2 of
                    None \<Rightarrow> (s2, Some type_error)
                  | Some z \<Rightarrow>
                      let s3 = s2\<lparr>printingZPos := z\<rparr>;
                          s4 = (case printStartTime s3 of
                                  None \<Rightarrow> s3\<lparr>printingTimeLeft := ''--''\<rparr>
                                | Some start \<Rightarrow>
                                    if start \<noteq> 0 \<and> above_one js progress then
                                      s3\<lparr>printingTimeLeft :=
                                            time_left js (fst (clock s3 (clock_reads s3))) start progress,
                                          clock_reads := Suc (clock_reads s3)\<rparr>
                                    else s3\<lparr>printingTimeLeft := ''--''\<rparr>)
                      in (s4\<lparr>printingBytes := p0 @ ''%''\<rparr>, None))"

text \<open>
  \<^verbatim>\<open>updateStatus\<close> in two parts: the request it sends when it is called, and what it
  does when the answer has come (everything after the two \<^verbatim>\<open>await\<close>s, which runs
  without interruption). All of it is inside \<^verbatim>\<open>try\<close>; the \<^verbatim>\<open>catch\<close> only logs.
\<close>

definition updateStatus_send :: "'j page \<Rightarrow> 'j page" where
  "updateStatus_send s = fetch ''GET'' ''/api/status'' NoBody s"

definition status_catch :: "exn \<Rightarrow> 'j page \<Rightarrow> 'j page" where
  "status_catch e s = log_error ''Status error:'' (exn_message e) s"

text \<open>A call inside the \<^verbatim>\<open>try\<close> block: what it throws goes to the \<^verbatim>\<open>catch\<close>.\<close>

definition status_try :: "'j page \<times> exn option \<Rightarrow> 'j page" where
  "status_try res = (case snd res of None \<Rightarrow> fst res | Some e \<Rightarrow> status_catch e (fst res))"

definition updateStatus_apply :: "'j js \<Rightarrow> 'j status_payload \<Rightarrow> 'j page \<Rightarrow> 'j page" where
  "updateStatus_apply js status s =
     (let s1 = (if connected status
                then s\<lparr>connectionStatus := (''Connected'', ''status-value status-connected'')\<rparr>
                else s\<lparr>connectionStatus := (''Disconnected'', ''status-value status-disconnected'')\<rparr>)
      in case print_status status of
           None \<Rightarrow> status_catch type_error s1
         | Some ps \<Rightarrow>
             let s2 = s1\<lparr>printStatus := (state ps, snd (printStatus s1))\<rparr>;
                 s3 = (if state ps = ''PRINTING'' then
                         showPrintingView ps (s2\<lparr>printStatus := (state ps, ''status-value status-printing'')\<rparr>)
                       else if state ps = ''PAUSED'' then
                         showPrintingView ps (s2\<lparr>printStatus := (state ps, ''status-value status-warning'')\<rparr>)
                       else
                         let s2' = s2\<lparr>printStatus := (state ps, ''status-value'')\<rparr>
                         in if state ps = ''IDLE'' then hidePrintingView s2' else s2')
             in case toFixed js (progress_percent ps) 1 of
                  None \<Rightarrow> status_catch type_error s3
                | Some p1 \<Rightarrow>
                    let s4 = s3\<lparr>progressStatus := p1 @ ''%'',
                                progressBar_width := to_string js (progress_percent ps) @ ''%''\<rparr>
                    in case toFixed js (z_position status) 2 of
                         None \<Rightarrow> status_catch type_error s4
                       | Some z \<Rightarrow>
                           let s5 = updateButtons (connected status) ps (s4\<lparr>zPosition := z @ '' mm''\<rparr>)
                           in status_try (updatePrintingOverlay js status ps s5))"

definition updateStatus_settle ::
  "'j js \<Rightarrow> 'j status_payload fetch_result \<Rightarrow> 'j page \<Rightarrow> 'j page" where
  "updateStatus_settle js r s =
     (case await_json r of
        Inl e \<Rightarrow> status_catch e s
      | Inr status \<Rightarrow> updateStatus_apply js status s)"

definition updateStatus ::
  "'j js \<Rightarrow> 'j status_payload fetch_result \<Rightarrow> 'j page \<Rightarrow> 'j page \<times> exn option" where
  "updateStatus js r s = (updateStatus_settle js r (updateStatus_send s), None)"

section \<open>The relay plugin\<close>

text \<open>
  \<^verbatim>\<open>className.replace(/relay-(on|off)/g, '')\<close>: every match, found from left to right,
  is taken out. \<^verbatim>\<open>trim()\<close> removes white space and line terminators at both ends.
  A \<open>string\<close> here is a list of code units below 256; of these, \<^verbatim>\<open>trim()\<close> removes
  the tab, line feed, vertical tab, form feed, carriage return, the space and the
  no-break space U+00A0 (the other white space of the language, U+FEFF, U+2028 and
  the like, lies above 255 and has no place in a \<open>string\<close>).
\<close>

function strip_relay :: "string \<Rightarrow> string" where
  "strip_relay [] = []"
| "strip_relay (c # cs) =
     (if take 8 (c # cs) = ''relay-on'' then strip_relay (drop 8 (c # cs))
      else if take 9 (c # cs) = ''relay-off'' then strip_relay (drop 9 (c # cs))
      else c # strip_relay cs)"
  by pat_completeness auto
termination
  by (relation "measure length") auto

declare strip_relay.simps(2) [simp del]

definition js_space :: "char \<Rightarrow> bool" where
  "js_space c = (c \<in> set [CHR '' '', CHR 0x09, CHR 0x0A, CHR 0x0B, CHR 0x0C, CHR 0x0D, CHR 0xA0])"

definition trim :: "string \<Rightarrow> string" where
  "trim t = rev (dropWhile js_space (rev (dropWhile js_space t)))"

text \<open>
  \<^verbatim>\<open>updateRelayButtonState\<close>: \<open>relay_buttons s relayId\<close> is the element the selector
  \<^verbatim>\<open>[onclick="toggleRelay('...')"]\<close> finds, if any.
\<close>

definition render_button :: "bool \<Rightarrow> relay_button \<Rightarrow> relay_button" where
  "render_button st b =
     b\<lparr>className := trim (strip_relay (className b)) @ '' relay-'' @ (if st then ''on'' else ''off''),
       icon_color := (case icon_color b of
                        None \<Rightarrow> None
                      | Some c \<Rightarrow> Some (if st then ''#28a745'' else ''#c7c7c7'')),
       background := (if st then ''#2d5a31'' else ''#3a3a3a''),
       borderColor := (if st then ''#28a745'' else ''#555'')\<rparr>"

definition updateRelayButtonState :: "string \<Rightarrow> bool \<Rightarrow> 'j page \<Rightarrow> 'j page" where
  "updateRelayButtonState relayId st s =
     (case relay_buttons s relayId of
        None \<Rightarrow> s
      | Some toolbarButton \<Rightarrow>
          s\<lparr>relay_buttons := (relay_buttons s)(relayId \<mapsto> render_button st toolbarButton)\<rparr>)"

text \<open>
  \<^verbatim>\<open>toggleRelay\<close>. Its parts are named, because the body is suspended at each
  \<^verbatim>\<open>await\<close>: the entry (guard, flag, request), the \<^verbatim>\<open>catch\<close> and \<^verbatim>\<open>finally\<close>
  blocks, what runs when \<^verbatim>\<open>fetch\<close> has settled and what runs when
  \<^verbatim>\<open>response.json()\<close> has settled.
\<close>

definition toggle_url :: "string \<Rightarrow> string" where
  "toggle_url relayId = ''/api/plugins/relay_controller/toggle_relay/'' @ relayId"

definition toggleRelay_catch :: "exn \<Rightarrow> 'j page \<Rightarrow> 'j page" where
  "toggleRelay_catch e s =
     showAlert (Some ''Network error - please try again'') ''error''
       (log_error ''Relay toggle error:'' (exn_message e) s)"

definition toggleRelay_finally :: "'j page \<Rightarrow> 'j page" where
  "toggleRelay_finally s = s\<lparr>relayToggling := False\<rparr>"

definition toggleRelay_fetched ::
  "'j reply fetch_result \<Rightarrow> 'j page \<Rightarrow> 'j page \<times> (string + 'j reply) option" where
  "toggleRelay_fetched r s =
     (case r of
        Rejected m \<Rightarrow> (toggleRelay_finally (toggleRelay_catch (Error m) s), None)
      | Response ok status b \<Rightarrow>
          if \<not> ok then
            (toggleRelay_finally
               (toggleRelay_catch (Error (''HTTP error! status: '' @ decimal status)) s), None)
          else (s, Some b))"

definition toggleRelay_parsed :: "string \<Rightarrow> string + 'j reply \<Rightarrow> 'j page \<Rightarrow> 'j page" where
  "toggleRelay_parsed relayId b s =
     toggleRelay_finally
       (case b of
          Inl m \<Rightarrow> toggleRelay_catch (Error m) s
        | Inr data \<Rightarrow>
            if success data then
              showAlert (message data) ''success''
                (updateRelayButtonState relayId (relay_state data) s)
            else
              showAlert (Some (if truthy_string (message data) then js_str (message data)
                               else ''Failed to toggle relay'')) ''error'' s)"

definition toggleRelay ::
  "string \<Rightarrow> 'j reply fetch_result \<Rightarrow> 'j page \<Rightarrow> 'j page \<times> exn option" where
  "toggleRelay relayId r s =
     (if relayToggling s then (s, None)
      else
        let s1 = fetch ''GET'' (toggle_url relayId) NoBody (s\<lparr>relayToggling := True\<rparr>)
        in case toggleRelay_fetched r s1 of
             (s2, None) \<Rightarrow> (s2, None)
           | (s2, Some b) \<Rightarrow> (toggleRelay_parsed relayId b s2, None))"

text \<open>\<^verbatim>\<open>setRelayState\<close> returns a boolean and shows no toast.\<close>

definition setRelayState ::
  "string \<Rightarrow> bool \<Rightarrow> 'j reply fetch_result \<Rightarrow> 'j page \<Rightarrow> 'j page \<times> bool" where
  "setRelayState relayId st r s =
     (let stateParam = (if st then ''on'' else ''off'');
          s1 = fetch ''GET'' (''/api/plugins/relay_controller/set_relay/'' @ relayId @ ''/'' @ stateParam)
                 NoBody s
      in case await_ok_json r of
           Inl e \<Rightarrow> (log_error ''Set relay state error:'' (exn_message e) s1, False)
         | Inr data \<Rightarrow>
             if success data then (updateRelayButtonState relayId (relay_state data) s1, True)
             else (log_error ''Failed to set relay state:'' (js_str (message data)) s1, False))"

text \<open>
  \<^verbatim>\<open>refreshRelayStates\<close> (every ten seconds, and one second after the page has
  loaded): the answer maps each relay identifier to its state.
\<close>

fun render_all :: "(string \<times> bool) list \<Rightarrow> 'j page \<Rightarrow> 'j page" where
  "render_all [] s = s"
| "render_all ((relayId, st) # rest) s = render_all rest (updateRelayButtonState relayId st s)"

definition refreshRelayStates ::
  "(string \<times> bool) list fetch_result \<Rightarrow> 'j page \<Rightarrow> 'j page \<times> exn option" where
  "refreshRelayStates r s =
     (let s1 = fetch ''GET'' ''/api/plugins/relay_controller/get_status'' NoBody s
      in case await_ok_json r of
           Inl e \<Rightarrow> (log_error ''Relay status refresh error:'' (exn_message e) s1, None)
         | Inr data \<Rightarrow> (render_all data s1, None))"


section \<open>Calls and answers in time\<close>

text \<open>
  Several \<^verbatim>\<open>toggleRelay\<close> bodies could be suspended at once if the guard let them in.
  A suspended body is a task: it waits for its \<^verbatim>\<open>fetch\<close>, or (with the response
  in hand) for \<^verbatim>\<open>response.json()\<close>. An event is a call or the settling of what the
  \<open>i\<close>-th task waits for; the event loop runs one event at a time.
\<close>

datatype 'j toggle_task = AwaitingFetch string | AwaitingJson string "string + 'j reply"

datatype 'j toggle_event =
    ToggleCall string
  | FetchSettles nat "'j reply fetch_result"
  | JsonSettles nat

definition remove_nth :: "nat \<Rightarrow> 'a list \<Rightarrow> 'a list" where
  "remove_nth i xs = take i xs @ drop (Suc i) xs"

definition toggle_step ::
  "'j toggle_event \<Rightarrow> 'j page \<times> 'j toggle_task list \<Rightarrow> 'j page \<times> 'j toggle_task list" where
  "toggle_step ev st =
     (let s = fst st; tasks = snd st
      in case ev of
           ToggleCall relayId \<Rightarrow>
             if relayToggling s then (s, tasks)
             else (fetch ''GET'' (toggle_url relayId) NoBody (s\<lparr>relayToggling := True\<rparr>),
                   tasks @ [AwaitingFetch relayId])
         | FetchSettles i r \<Rightarrow>
             if i < length tasks then
               (case tasks ! i of
                  AwaitingFetch relayId \<Rightarrow>
                    (case toggleRelay_fetched r s of
                       (s', None) \<Rightarrow> (s', remove_nth i tasks)
                     | (s', Some b) \<Rightarrow> (s', tasks[i := AwaitingJson relayId b]))
                | AwaitingJson relayId b \<Rightarrow> (s, tasks))
             else (s, tasks)
         | JsonSettles i \<Rightarrow>
             if i < length tasks then
               (case tasks ! i of
                  AwaitingFetch relayId \<Rightarrow> (s, tasks)
                | AwaitingJson relayId b \<Rightarrow> (toggleRelay_parsed relayId b s, remove_nth i tasks))
             else (s, tasks))"

fun toggle_run ::
  "'j toggle_event list \<Rightarrow> 'j page \<times> 'j toggle_task list \<Rightarrow> 'j page \<times> 'j toggle_task list" where
  "toggle_run [] st = st"
| "toggle_run (ev # evs) st = toggle_run evs (toggle_step ev st)"

text \<open>The toggle requests whose \<^verbatim>\<open>fetch\<close> has not settled yet.\<close>

fun in_flight :: "'j toggle_task list \<Rightarrow> nat" where
  "in_flight [] = 0"
| "in_flight (AwaitingFetch relayId # tasks) = Suc (in_flight tasks)"
| "in_flight (AwaitingJson relayId b # tasks) = in_flight tasks"





text \<open>What the status panel shows: the fields \<^verbatim>\<open>updateStatus\<close> writes outside the overlay.\<close>

definition status_view ::
  "'j page \<Rightarrow> (string \<times> string) \<times> (string \<times> string) \<times> string \<times> string \<times> string \<times> bool list" where
  "status_view s =
     (connectionStatus s, printStatus s, progressStatus s, progressBar_width s, zPosition s,
      [connectBtn_disabled s, disconnectBtn_disabled s, startBtn_disabled s,
       pauseBtn_disabled s, resumeBtn_disabled s, stopBtn_disabled s])"

text \<open>A payload whose numbers are numbers: no \<^verbatim>\<open>toFixed\<close> throws.\<close>

definition well_formed :: "'j js \<Rightarrow> 'j status_payload \<Rightarrow> bool" where
  "well_formed js status =
     (case print_status status of
        None \<Rightarrow> False
      | Some ps \<Rightarrow>
          toFixed js (progress_percent ps) 0 \<noteq> None \<and>
          toFixed js (progress_percent ps) 1 \<noteq> None \<and>
          toFixed js (z_position status) 2 \<noteq> None)"



definition overlay_view :: "'j page \<Rightarrow> string \<times> string \<times> string \<times> string \<times> string" where
  "overlay_view s =
     (printingFileName s, printingLayerInfo s, printingProgress s, printingZPos s, printingBytes s)"


text \<open>The guard's invariant: the flag is up exactly while a task is suspended, and there is at most one.\<close>

definition guard_inv :: "'j page \<times> 'j toggle_task list \<Rightarrow> bool" where
  "guard_inv st = (length (snd st) \<le> 1 \<and> relayToggling (fst st) = (snd st \<noteq> []))"

section \<open>What a relay button looks like\<close>













section \<open>The page as served, and examples\<close>

text \<open>
  The page when the scripts have loaded: the globals as declared, the document as the
  template writes it (the placeholder lines of the console area are not kept), no relay
  button unless the plugin's toolbar provides one.
\<close>

definition initial_page :: "(nat \<Rightarrow> nat \<times> string) \<Rightarrow> 'j page" where
  "initial_page clk =
     \<lparr>selectedFile = None, printStartTime = None, consoleLines = [],
      currentConfigTab = ''general'', configData = [], relayToggling = False,
      clock = clk, clock_reads = 0, requests = [], console_error = [],
      alertArea = [], consoleArea = [], configModal_active = False,
      printingOverlay_active = False,
      connectionStatus = (''Checking...'', ''status-value''),
      printStatus = (''IDLE'', ''status-value''),
      progressStatus = ''0.0%'', progressBar_width = [], zPosition = ''0.00 mm'',
      connectBtn_disabled = False, disconnectBtn_disabled = False, startBtn_disabled = True,
      pauseBtn_disabled = True, resumeBtn_disabled = True, stopBtn_disabled = True,
      printingFileName = ''Print Job'', printingLayerInfo = ''Layer 0 of 100'',
      printingProgress = ''100%'', printingZPos = ''0.28'', printingTimeLeft = ''16m'',
      printingBytes = ''0%'', relay_buttons = (\<lambda>relayId. None),
      fileList = Loading_files, totalFiles = ''0'', totalSize = ''0 MB'',
      storageStats_display = ''none'', configContent = [], plugin_tabs = []\<rparr>"

text \<open>A clock for the examples: one second between readings.\<close>

definition example_clock :: "nat \<Rightarrow> nat \<times> string" where
  "example_clock n = (1000 * Suc n, ''12:00:'' @ decimal (10 + n mod 50))"

text \<open>The built-ins on natural numbers, in exact arithmetic, for the examples.\<close>

definition nat_js :: "nat js" where
  "nat_js =
     \<lparr>toFixed = (\<lambda>x d. Some (decimal x @ (if d = 0 then [] else ''.'' @ replicate d (CHR ''0'')))),
      to_string = decimal,
      truthy = (\<lambda>x. x \<noteq> 0),
      positive = (\<lambda>x. 0 < x),
      above_one = (\<lambda>x. 1 < x),
      layer_info = (\<lambda>progress bytes.
         let estimatedLayers = max 1 ((bytes + 5000) div 10000)
         in ''Layer '' @ decimal ((progress * estimatedLayers + 50) div 100)
            @ '' of '' @ decimal estimatedLayers),
      time_left = (\<lambda>now start progress.
         let remaining = ((now - start) * (100 - progress)) div (1000 * progress);
             hours = remaining div 3600;
             minutes = (remaining mod 3600) div 60
         in if 0 < hours then decimal hours @ ''h '' @ decimal minutes @ ''m''
            else decimal minutes @ ''m''),
      format_size = (\<lambda>bytes.
         if bytes < 1024 then decimal bytes @ '' B''
         else if bytes < 1024 * 1024
           then (let tenths = (20 * bytes + 1024) div 2048
                 in decimal (tenths div 10) @ ''.'' @ decimal (tenths mod 10) @ '' KB'')
         else (let tenths = (20 * bytes + 1048576) div 2097152
               in decimal (tenths div 10) @ ''.'' @ decimal (tenths mod 10) @ '' MB''))\<rparr>"

text \<open>A relay button as a template would serve it for a relay that is off: the class, no inline style.\<close>

definition served_off_button :: relay_button where
  "served_off_button =
     \<lparr>className = ''relay-toolbar-btn relay-off'', icon_color = Some [],
      background = [], borderColor = []\<rparr>"




definition relay_page :: "nat page" where
  "relay_page = (initial_page example_clock)\<lparr>relay_buttons := [''relay_1'' \<mapsto> served_off_button]\<rparr>"

definition ok_reply :: "bool \<Rightarrow> string \<Rightarrow> nat reply" where
  "ok_reply st msg =
     \<lparr>success = True, message = Some msg, error = None, relay_state = st,
      total_uploaded = 0, total_errors = 0, deleted_count = 0\<rparr>"

definition failed_reply :: "string option \<Rightarrow> string option \<Rightarrow> nat reply" where
  "failed_reply msg err =
     \<lparr>success = False, message = msg, error = err, relay_state = False,
      total_uploaded = 0, total_errors = 0, deleted_count = 0\<rparr>"

definition example_status :: "string \<Rightarrow> nat \<Rightarrow> nat status_payload" where
  "example_status st progress =
     \<lparr>connected = True,
      print_status = Some \<lparr>state = st, progress_percent = progress, total_bytes = 250000\<rparr>,
      z_position = 12, selected_file = Some ''cube.ctb''\<rparr>"

text \<open>A page whose console buffer is full.\<close>

definition full_console :: "nat page" where
  "full_console = (initial_page example_clock)\<lparr>consoleLines := replicate 50 (''[12:00:00] x'', [])\<rparr>"

text \<open>A page with three pending edits made through the settings forms, the modal open.\<close>

definition edited_page :: "nat page" where
  "edited_page =
     updatePluginConfigValue nat_js ''relay_controller'' ''show_in_status'' 1
       (updateConfigValue ''printer'' ''baudrate'' 115200
          (updateConfigValue ''interface'' ''update_interval'' 5000
             (openConfigModal (initial_page example_clock))))"

text \<open>A network on which every request resolves, and one on which every request fails.\<close>

definition all_ok :: "nat \<Rightarrow> unit fetch_result" where
  "all_ok i = Response True 200 (Inr ())"



section \<open>The console buffer\<close>

lemma length_push_line: "length ls \<le> 50 \<Longrightarrow> length (push_line line ls) \<le> 50"
  by (simp add: push_line_def Let_def)

lemma push_line_full: "length ls = 50 \<Longrightarrow> push_line line ls = tl ls @ [line]"
  by (cases ls) (simp_all add: push_line_def Let_def)

lemma push_line_room: "length ls < 50 \<Longrightarrow> push_line line ls = ls @ [line]"
  by (simp add: push_line_def Let_def)

lemma consoleLines_addConsoleMessage:
  "consoleLines (addConsoleMessage msg type s) =
     push_line (''['' @ snd (clock s (clock_reads s)) @ ''] '' @ msg, type) (consoleLines s)"
  by (simp add: addConsoleMessage_def updateConsole_def Let_def)

lemma console_calls_bounded:
  "length (consoleLines s) \<le> 50 \<Longrightarrow> length (consoleLines (console_calls calls s)) \<le> 50"
proof (induction calls arbitrary: s)
  case Nil
  then show ?case by simp
next
  case (Cons c calls)
  obtain msg type where c: "c = (msg, type)" by (cases c)
  have "length (consoleLines (addConsoleMessage msg type s)) \<le> 50"
    using Cons.prems by (simp add: consoleLines_addConsoleMessage length_push_line)
  then show ?case using Cons.IH c by simp
qed

text \<open>
  C8. From the page as served, and from any buffer of at most 50 lines, the buffer has
  at most 50 lines after every sequence of \<^verbatim>\<open>addConsoleMessage\<close> calls, whatever the
  messages and types; a call on a full buffer removes the oldest line and appends the new
  one; and the pending config edits (where a \<^verbatim>\<open>console_max_lines\<close> chosen in the
  settings form would be) have no influence on the buffer.
\<close>

theorem console_buffer_at_most_50:
  "length (consoleLines (console_calls calls (initial_page clk :: 'j page))) \<le> 50 \<and>
   (length (consoleLines (s :: 'j page)) \<le> 50 \<longrightarrow>
      length (consoleLines (console_calls calls s)) \<le> 50) \<and>
   (length (consoleLines s) = 50 \<longrightarrow>
      consoleLines (addConsoleMessage msg type s) =
        tl (consoleLines s) @ [(''['' @ snd (clock s (clock_reads s)) @ ''] '' @ msg, type)]) \<and>
   consoleLines (console_calls calls (s\<lparr>configData := cd\<rparr>)) =
     consoleLines (console_calls calls s)"
proof (intro conjI impI)
  show "length (consoleLines (console_calls calls (initial_page clk))) \<le> 50"
    by (rule console_calls_bounded) (simp add: initial_page_def)
next
  assume "length (consoleLines s) \<le> 50"
  then show "length (consoleLines (console_calls calls s)) \<le> 50"
    by (rule console_calls_bounded)
next
  assume "length (consoleLines s) = 50"
  then show "consoleLines (addConsoleMessage msg type s) =
        tl (consoleLines s) @ [(''['' @ snd (clock s (clock_reads s)) @ ''] '' @ msg, type)]"
    by (simp add: consoleLines_addConsoleMessage push_line_full)
next
  have step: "addConsoleMessage m t (s'\<lparr>configData := cd\<rparr>) =
      (addConsoleMessage m t s')\<lparr>configData := cd\<rparr>" for m t and s' :: "'j page"
    by (simp add: addConsoleMessage_def updateConsole_def Let_def)
  have "console_calls calls (s'\<lparr>configData := cd\<rparr>) = (console_calls calls s')\<lparr>configData := cd\<rparr>"
    for s' :: "'j page"
  proof (induction calls arbitrary: s')
    case Nil
    show ?case by simp
  next
    case (Cons c calls)
    obtain m t where c: "c = (m, t)" by (cases c)
    show ?case using Cons.IH [of "addConsoleMessage m t s'"] by (simp add: c step)
  qed
  then show "consoleLines (console_calls calls (s\<lparr>configData := cd\<rparr>)) =
     consoleLines (console_calls calls s)"
    by simp
qed

theorem console_buffer_at_most_50_witness:
  "length (consoleLines full_console) = 50 \<and>
   length (consoleLines (console_calls [(''a'', ''info''), (''b'', [])] full_console)) \<le> 50 \<and>
   consoleLines (addConsoleMessage ''a'' ''info'' full_console) =
     replicate 49 (''[12:00:00] x'', []) @ [(''[12:00:10] a'', ''info'')]"
  using console_buffer_at_most_50 [of "[(''a'', ''info''), (''b'', [])]" example_clock full_console "''a''" "''info''" "[]"]
  by (simp add: full_console_def initial_page_def example_clock_def decimal.simps)


section \<open>Starting a print\<close>

lemma requests_showAlert [simp]: "requests (showAlert msg type s) = requests s"
  by (simp add: showAlert_def)

lemma alertArea_showAlert [simp]: "alertArea (showAlert msg type s) = alertArea s @ [(msg, type)]"
  by (simp add: showAlert_def)

lemma requests_addConsoleMessage [simp]: "requests (addConsoleMessage msg type s) = requests s"
  by (simp add: addConsoleMessage_def updateConsole_def Let_def)

lemma alertArea_addConsoleMessage [simp]: "alertArea (addConsoleMessage msg type s) = alertArea s"
  by (simp add: addConsoleMessage_def updateConsole_def Let_def)

lemma alertArea_fetch [simp]: "alertArea (fetch method url b s) = alertArea s"
  by (simp add: fetch_def)

lemma requests_fetch [simp]: "requests (fetch method url b s) = requests s @ [Request method url b]"
  by (simp add: fetch_def)

text \<open>
  C10. With no file selected (\<^verbatim>\<open>selectedFile\<close> is \<^verbatim>\<open>null\<close>; the code's test
  \<^verbatim>\<open>!selectedFile\<close> treats the empty name alike) \<^verbatim>\<open>startPrint\<close> sends no request
  and shows the one toast \<^verbatim>\<open>No file selected\<close> of type warning; with a file selected
  it is exactly \<^verbatim>\<open>printFile\<close> of that name: same page, same rejection if any.
\<close>

theorem startPrint_needs_a_file:
  "(selectedFile s = None \<or> selectedFile s = Some [] \<longrightarrow>
      snd (startPrint r s) = None \<and>
      requests (fst (startPrint r s)) = requests s \<and>
      alertArea (fst (startPrint r s)) = alertArea s @ [(Some ''No file selected'', ''warning'')]) \<and>
   (selectedFile s = Some filename \<and> filename \<noteq> [] \<longrightarrow>
      startPrint r s = printFile filename r s)"
  by (auto simp add: startPrint_def truthy_string_def)

theorem startPrint_needs_a_file_witness:
  "selectedFile (initial_page example_clock :: nat page) = None \<and>
   snd (startPrint (Rejected ''offline'') (initial_page example_clock :: nat page)) = None \<and>
   requests (fst (startPrint (Rejected ''offline'') (initial_page example_clock :: nat page))) = [] \<and>
   alertArea (fst (startPrint (Rejected ''offline'') (initial_page example_clock :: nat page))) =
     [(Some ''No file selected'', ''warning'')] \<and>
   startPrint (Response True 200 (Inr (ok_reply False ''Print started'')))
       ((initial_page example_clock)\<lparr>selectedFile := Some ''cube.ctb''\<rparr>) =
     printFile ''cube.ctb'' (Response True 200 (Inr (ok_reply False ''Print started'')))
       ((initial_page example_clock)\<lparr>selectedFile := Some ''cube.ctb''\<rparr>)"
  using startPrint_needs_a_file [of "initial_page example_clock :: nat page" "Rejected ''offline''" "''x''"]
    startPrint_needs_a_file [of "(initial_page example_clock :: nat page)\<lparr>selectedFile := Some ''cube.ctb''\<rparr>"
      "Response True 200 (Inr (ok_reply False ''Print started''))" "''cube.ctb''"]
  by (simp add: initial_page_def)


section \<open>The printing overlay\<close>

lemma overlay_status_catch [simp]:
  "printingOverlay_active (status_catch e s) = printingOverlay_active s"
  by (simp add: status_catch_def log_error_def)

lemma overlay_updateButtons [simp]:
  "printingOverlay_active (updateButtons conn ps s) = printingOverlay_active s"
  by (simp add: updateButtons_def Let_def)

lemma overlay_updatePrintingOverlay [simp]:
  "printingOverlay_active (fst (updatePrintingOverlay js status ps s)) = printingOverlay_active s"
  by (simp add: updatePrintingOverlay_def Let_def split: option.splits)

lemma overlay_status_try [simp]:
  "printingOverlay_active (status_try res) = printingOverlay_active (fst res)"
  by (simp add: status_try_def split: option.splits)

lemma overlay_showPrintingView [simp]: "printingOverlay_active (showPrintingView ps s)"
  by (simp add: showPrintingView_def Let_def)

lemma overlay_hidePrintingView [simp]: "\<not> printingOverlay_active (hidePrintingView s)"
  by (simp add: hidePrintingView_def)

lemma overlay_updateStatus_apply:
  "print_status status = Some ps \<Longrightarrow>
   printingOverlay_active (updateStatus_apply js status s) =
     (if state ps = ''PRINTING'' \<or> state ps = ''PAUSED'' then True
      else if state ps = ''IDLE'' then False
      else printingOverlay_active s)"
  by (simp add: updateStatus_apply_def Let_def split: option.splits)

text \<open>
  C4. Whenever \<^verbatim>\<open>updateStatus\<close> processes a status payload (the request resolves and
  the body parses, whatever the HTTP status), the overlay has the class \<^verbatim>\<open>active\<close>
  afterwards if \<^verbatim>\<open>print_status.state\<close> is \<^verbatim>\<open>PRINTING\<close>, and does not have it if the
  state is \<^verbatim>\<open>IDLE\<close>; this holds whatever the page was before and whatever the other
  fields of the payload are.
\<close>

theorem overlay_follows_print_state:
  "print_status status = Some ps \<Longrightarrow>
   (state ps = ''PRINTING'' \<longrightarrow>
      printingOverlay_active (fst (updateStatus js (Response ok code (Inr status)) s))) \<and>
   (state ps = ''IDLE'' \<longrightarrow>
      \<not> printingOverlay_active (fst (updateStatus js (Response ok code (Inr status)) s)))"
  by (simp add: updateStatus_def updateStatus_settle_def await_json_def overlay_updateStatus_apply)

theorem overlay_follows_print_state_witness:
  "printingOverlay_active
     (fst (updateStatus nat_js (Response True 200 (Inr (example_status ''PRINTING'' 40)))
        (initial_page example_clock))) \<and>
   \<not> printingOverlay_active
     (fst (updateStatus nat_js (Response True 200 (Inr (example_status ''IDLE'' 0)))
        (fst (updateStatus nat_js (Response True 200 (Inr (example_status ''PRINTING'' 40)))
           (initial_page example_clock)))))"
  using overlay_follows_print_state [of "example_status ''PRINTING'' 40"
      "\<lparr>state = ''PRINTING'', progress_percent = 40, total_bytes = 250000\<rparr>"
      nat_js True 200 "initial_page example_clock"]
    overlay_follows_print_state [of "example_status ''IDLE'' 0"
      "\<lparr>state = ''IDLE'', progress_percent = 0, total_bytes = 250000\<rparr>"
      nat_js True 200
      "fst (updateStatus nat_js (Response True 200 (Inr (example_status ''PRINTING'' 40)))
         (initial_page example_clock))"]
  by (simp add: example_status_def)


section \<open>Racing responses\<close>

lemma selectedFile_showPrintingView [simp]: "selectedFile (showPrintingView ps s) = selectedFile s"
  by (simp add: showPrintingView_def Let_def)

lemma selectedFile_hidePrintingView [simp]: "selectedFile (hidePrintingView s) = selectedFile s"
  by (simp add: hidePrintingView_def)

lemma status_view_status_catch [simp]: "status_view (status_catch e s) = status_view s"
  by (simp add: status_view_def status_catch_def log_error_def)

lemma status_view_updatePrintingOverlay [simp]:
  "status_view (fst (updatePrintingOverlay js status ps s)) = status_view s"
  by (simp add: status_view_def updatePrintingOverlay_def Let_def split: option.splits)

lemma status_view_status_try [simp]: "status_view (status_try res) = status_view (fst res)"
  by (simp add: status_try_def split: option.splits)

lemma status_view_showPrintingView [simp]: "status_view (showPrintingView ps s) = status_view s"
  by (simp add: status_view_def showPrintingView_def Let_def)

lemma status_view_hidePrintingView [simp]: "status_view (hidePrintingView s) = status_view s"
  by (simp add: status_view_def hidePrintingView_def)

text \<open>What a well-formed payload writes into the status panel: nothing of the old panel is left.\<close>

lemma status_view_apply:
  assumes "print_status status = Some ps"
    and "toFixed js (progress_percent ps) 1 = Some p1"
    and "toFixed js (z_position status) 2 = Some z"
  shows "status_view (updateStatus_apply js status s) =
    ((if connected status then (''Connected'', ''status-value status-connected'')
      else (''Disconnected'', ''status-value status-disconnected'')),
     (state ps,
      if state ps = ''PRINTING'' then ''status-value status-printing''
      else if state ps = ''PAUSED'' then ''status-value status-warning'' else ''status-value''),
     p1 @ ''%'', to_string js (progress_percent ps) @ ''%'', z @ '' mm'',
     [connected status, \<not> connected status,
      \<not> connected status \<or> state ps = ''PRINTING'' \<or> state ps = ''PAUSED''
        \<or> \<not> truthy_string (selectedFile s),
      \<not> connected status \<or> state ps \<noteq> ''PRINTING'',
      \<not> connected status \<or> state ps \<noteq> ''PAUSED'',
      \<not> connected status \<or> (state ps \<noteq> ''PRINTING'' \<and> state ps \<noteq> ''PAUSED'')])"
proof -
  define s3 where "s3 =
    (if state ps = ''PRINTING'' then
       showPrintingView ps
         ((if connected status
           then s\<lparr>connectionStatus := (''Connected'', ''status-value status-connected'')\<rparr>
           else s\<lparr>connectionStatus := (''Disconnected'', ''status-value status-disconnected'')\<rparr>)
          \<lparr>printStatus := (state ps, ''status-value status-printing'')\<rparr>)
     else if state ps = ''PAUSED'' then
       showPrintingView ps
         ((if connected status
           then s\<lparr>connectionStatus := (''Connected'', ''status-value status-connected'')\<rparr>
           else s\<lparr>connectionStatus := (''Disconnected'', ''status-value status-disconnected'')\<rparr>)
          \<lparr>printStatus := (state ps, ''status-value status-warning'')\<rparr>)
     else if state ps = ''IDLE'' then
       hidePrintingView
         ((if connected status
           then s\<lparr>connectionStatus := (''Connected'', ''status-value status-connected'')\<rparr>
           else s\<lparr>connectionStatus := (''Disconnected'', ''status-value status-disconnected'')\<rparr>)
          \<lparr>printStatus := (state ps, ''status-value'')\<rparr>)
     else
       (if connected status
        then s\<lparr>connectionStatus := (''Connected'', ''status-value status-connected'')\<rparr>
        else s\<lparr>connectionStatus := (''Disconnected'', ''status-value status-disconnected'')\<rparr>)
       \<lparr>printStatus := (state ps, ''status-value'')\<rparr>)"
  have apply_eq: "updateStatus_apply js status s =
      status_try (updatePrintingOverlay js status ps
        (updateButtons (connected status) ps
           (s3\<lparr>progressStatus := p1 @ ''%'',
               progressBar_width := to_string js (progress_percent ps) @ ''%'',
               zPosition := z @ '' mm''\<rparr>)))"
    using assms by (simp add: updateStatus_apply_def Let_def s3_def)
  have view3: "status_view s3 =
      ((if connected status then (''Connected'', ''status-value status-connected'')
        else (''Disconnected'', ''status-value status-disconnected'')),
       (state ps,
        if state ps = ''PRINTING'' then ''status-value status-printing''
        else if state ps = ''PAUSED'' then ''status-value status-warning'' else ''status-value''),
       progressStatus s, progressBar_width s, zPosition s,
       [connectBtn_disabled s, disconnectBtn_disabled s, startBtn_disabled s,
        pauseBtn_disabled s, resumeBtn_disabled s, stopBtn_disabled s])"
    by (simp add: s3_def) (simp add: status_view_def)
  have sel3: "selectedFile s3 = selectedFile s"
    by (simp add: s3_def)
  have "status_view (updateStatus_apply js status s) =
      status_view (updateButtons (connected status) ps
           (s3\<lparr>progressStatus := p1 @ ''%'',
               progressBar_width := to_string js (progress_percent ps) @ ''%'',
               zPosition := z @ '' mm''\<rparr>))"
    by (simp add: apply_eq)
  also have "\<dots> =
      (connectionStatus s3, printStatus s3, p1 @ ''%'',
       to_string js (progress_percent ps) @ ''%'', z @ '' mm'',
       [connected status, \<not> connected status,
        \<not> connected status \<or> state ps = ''PRINTING'' \<or> state ps = ''PAUSED''
          \<or> \<not> truthy_string (selectedFile s3),
        \<not> connected status \<or> state ps \<noteq> ''PRINTING'',
        \<not> connected status \<or> state ps \<noteq> ''PAUSED'',
        \<not> connected status \<or> (state ps \<noteq> ''PRINTING'' \<and> state ps \<noteq> ''PAUSED'')])"
    by (simp add: status_view_def updateButtons_def Let_def)
  finally show ?thesis
    using view3 by (simp add: status_view_def sel3)
qed

lemma status_view_apply_independent:
  assumes "well_formed js status" and "selectedFile s = selectedFile s'"
  shows "status_view (updateStatus_apply js status s) = status_view (updateStatus_apply js status s')"
proof -
  from assms(1) obtain ps p1 z where
    "print_status status = Some ps" "toFixed js (progress_percent ps) 1 = Some p1"
    "toFixed js (z_position status) 2 = Some z"
    by (auto simp add: well_formed_def split: option.splits)
  then show ?thesis
    using assms(2) by (simp add: status_view_apply [where ps = ps and ?p1.0 = p1 and z = z])
qed

lemma selectedFile_status_catch [simp]: "selectedFile (status_catch e s) = selectedFile s"
  by (simp add: status_catch_def log_error_def)

lemma alertArea_status_catch [simp]: "alertArea (status_catch e s) = alertArea s"
  by (simp add: status_catch_def log_error_def)

lemma selectedFile_updateButtons [simp]: "selectedFile (updateButtons conn ps s) = selectedFile s"
  by (simp add: updateButtons_def Let_def)

lemma alertArea_updateButtons [simp]: "alertArea (updateButtons conn ps s) = alertArea s"
  by (simp add: updateButtons_def Let_def)

lemma selectedFile_updatePrintingOverlay [simp]:
  "selectedFile (fst (updatePrintingOverlay js status ps s)) = selectedFile s"
  by (simp add: updatePrintingOverlay_def Let_def split: option.splits)

lemma alertArea_updatePrintingOverlay [simp]:
  "alertArea (fst (updatePrintingOverlay js status ps s)) = alertArea s"
  by (simp add: updatePrintingOverlay_def Let_def split: option.splits)

lemma selectedFile_status_try [simp]: "selectedFile (status_try res) = selectedFile (fst res)"
  by (simp add: status_try_def split: option.splits)

lemma alertArea_status_try [simp]: "alertArea (status_try res) = alertArea (fst res)"
  by (simp add: status_try_def split: option.splits)

lemma alertArea_showPrintingView [simp]: "alertArea (showPrintingView ps s) = alertArea s"
  by (simp add: showPrintingView_def Let_def)

lemma alertArea_hidePrintingView [simp]: "alertArea (hidePrintingView s) = alertArea s"
  by (simp add: hidePrintingView_def)

lemma selectedFile_updateStatus_apply [simp]:
  "selectedFile (updateStatus_apply js status s) = selectedFile s"
  by (simp add: updateStatus_apply_def Let_def split: option.splits)

lemma alertArea_updateStatus_apply [simp]:
  "alertArea (updateStatus_apply js status s) = alertArea s"
  by (simp add: updateStatus_apply_def Let_def split: option.splits)

lemma selectedFile_updateStatus_settle [simp]:
  "selectedFile (updateStatus_settle js r s) = selectedFile s"
  by (simp add: updateStatus_settle_def split: sum.splits)

lemma alertArea_updateStatus_settle [simp]:
  "alertArea (updateStatus_settle js r s) = alertArea s"
  by (simp add: updateStatus_settle_def split: sum.splits)





lemma status_view_settle_independent:
  assumes "well_formed js status" and "selectedFile s = selectedFile s'"
  shows "status_view (updateStatus_settle js (Response ok code (Inr status)) s) =
         status_view (updateStatus_settle js (Response ok code (Inr status)) s')"
  using status_view_apply_independent [OF assms]
  by (simp add: updateStatus_settle_def await_json_def)

lemma overlay_view_status_try [simp]: "overlay_view (status_try res) = overlay_view (fst res)"
  by (simp add: overlay_view_def status_try_def status_catch_def log_error_def split: option.splits)









section \<open>The relay toggle guard\<close>

lemma relayToggling_showAlert [simp]: "relayToggling (showAlert msg type s) = relayToggling s"
  by (simp add: showAlert_def)

lemma relayToggling_log_error [simp]: "relayToggling (log_error label detail s) = relayToggling s"
  by (simp add: log_error_def)

lemma relayToggling_finally [simp]: "\<not> relayToggling (toggleRelay_finally s)"
  by (simp add: toggleRelay_finally_def)

lemma toggleRelay_fetched_done:
  "toggleRelay_fetched r s = (s', None) \<Longrightarrow> \<not> relayToggling s'"
  by (auto simp add: toggleRelay_fetched_def split: fetch_result.splits if_splits)

lemma toggleRelay_fetched_waiting:
  "toggleRelay_fetched r s = (s', Some b) \<Longrightarrow> s' = s"
  by (auto simp add: toggleRelay_fetched_def split: fetch_result.splits if_splits)

lemma toggleRelay_parsed_done [simp]: "\<not> relayToggling (toggleRelay_parsed relayId b s)"
  by (simp add: toggleRelay_parsed_def)

lemma guard_inv_step:
  assumes "guard_inv st"
  shows "guard_inv (toggle_step ev st)"
proof -
  obtain s tasks where st: "st = (s, tasks)" by (cases st)
  from assms st have len: "length tasks \<le> 1" and flag: "relayToggling s = (tasks \<noteq> [])"
    by (simp_all add: guard_inv_def)
  show ?thesis
  proof (cases ev)
    case (ToggleCall relayId)
    then show ?thesis
      using len flag st by (auto simp add: toggle_step_def guard_inv_def fetch_def)
  next
    case (FetchSettles i r)
    show ?thesis
    proof (cases "i < length tasks")
      case False
      then show ?thesis
        using FetchSettles assms st by (simp add: toggle_step_def)
    next
      case True
      with len obtain t where tasks: "tasks = [t]" and i: "i = 0"
        by (cases tasks) auto
      show ?thesis
      proof (cases t)
        case (AwaitingJson relayId b)
        then show ?thesis
          using FetchSettles assms st tasks i by (simp add: toggle_step_def)
      next
        case (AwaitingFetch relayId)
        obtain s' w where res: "toggleRelay_fetched r s = (s', w)"
          by (cases "toggleRelay_fetched r s")
        show ?thesis
        proof (cases w)
          case None
          then show ?thesis
            using FetchSettles st tasks i AwaitingFetch res toggleRelay_fetched_done [of r s s']
            by (simp add: toggle_step_def guard_inv_def remove_nth_def)
        next
          case (Some b)
          then show ?thesis
            using FetchSettles st tasks i AwaitingFetch res flag
              toggleRelay_fetched_waiting [of r s s' b]
            by (simp add: toggle_step_def guard_inv_def)
        qed
      qed
    qed
  next
    case (JsonSettles i)
    show ?thesis
    proof (cases "i < length tasks")
      case False
      then show ?thesis
        using JsonSettles assms st by (simp add: toggle_step_def)
    next
      case True
      with len obtain t where tasks: "tasks = [t]" and i: "i = 0"
        by (cases tasks) auto
      show ?thesis
        using JsonSettles assms st tasks i
        by (cases t) (simp_all add: toggle_step_def guard_inv_def remove_nth_def)
    qed
  qed
qed

lemma guard_inv_run: "guard_inv st \<Longrightarrow> guard_inv (toggle_run evs st)"
  by (induction evs arbitrary: st) (simp_all add: guard_inv_step)

lemma in_flight_le_length: "in_flight tasks \<le> length tasks"
  by (induction tasks rule: in_flight.induct) simp_all

lemma toggle_events_are_toggleRelay:
  assumes "\<not> relayToggling s"
  shows "toggle_run [ToggleCall relayId, FetchSettles 0 r, JsonSettles 0] (s, []) =
         (fst (toggleRelay relayId r s), [])"
proof -
  define s1 where "s1 = fetch ''GET'' (toggle_url relayId) NoBody (s\<lparr>relayToggling := True\<rparr>)"
  obtain s' w where res: "toggleRelay_fetched r s1 = (s', w)"
    by (cases "toggleRelay_fetched r s1")
  have call: "toggle_step (ToggleCall relayId) (s, []) = (s1, [AwaitingFetch relayId])"
    using assms by (simp add: toggle_step_def s1_def)
  show ?thesis
  proof (cases w)
    case None
    have "toggle_step (FetchSettles 0 r) (s1, [AwaitingFetch relayId]) = (s', [])"
      using res None by (simp add: toggle_step_def remove_nth_def)
    moreover have "toggle_step (JsonSettles 0) (s', []) = (s', [])"
      by (simp add: toggle_step_def)
    moreover have "fst (toggleRelay relayId r s) = s'"
      using assms res None by (simp add: toggleRelay_def Let_def s1_def [symmetric])
    ultimately show ?thesis
      using call by simp
  next
    case (Some b)
    have "toggle_step (FetchSettles 0 r) (s1, [AwaitingFetch relayId]) = (s', [AwaitingJson relayId b])"
      using res Some by (simp add: toggle_step_def)
    moreover have "toggle_step (JsonSettles 0) (s', [AwaitingJson relayId b]) =
        (toggleRelay_parsed relayId b s', [])"
      by (simp add: toggle_step_def remove_nth_def)
    moreover have "fst (toggleRelay relayId r s) = toggleRelay_parsed relayId b s'"
      using assms res Some by (simp add: toggleRelay_def Let_def s1_def [symmetric])
    ultimately show ?thesis
      using call by simp
  qed
qed

lemma toggleRelay_completes:
  assumes "\<not> relayToggling s"
  shows "\<not> relayToggling (fst (toggleRelay relayId r s)) \<and> snd (toggleRelay relayId r s) = None"
proof -
  define s1 where "s1 = fetch ''GET'' (toggle_url relayId) NoBody (s\<lparr>relayToggling := True\<rparr>)"
  obtain s' w where res: "toggleRelay_fetched r s1 = (s', w)"
    by (cases "toggleRelay_fetched r s1")
  show ?thesis
  proof (cases w)
    case None
    then show ?thesis
      using assms res toggleRelay_fetched_done [of r s1 s']
      by (simp add: toggleRelay_def Let_def s1_def [symmetric])
  next
    case (Some b)
    then show ?thesis
      using assms res by (simp add: toggleRelay_def Let_def s1_def [symmetric])
  qed
qed

text \<open>
  C9. While \<^verbatim>\<open>relayToggling\<close> is true a call of \<^verbatim>\<open>toggleRelay\<close> returns at once and
  leaves the whole page as it was (no request, no button change). A call that passes
  the guard ends, however its request settles, with the flag false and without throwing.
  Over every sequence of calls and settlings that starts with the flag down and nothing
  suspended, at most one task is suspended and at most one request is in flight, the
  flag is up exactly while a task is suspended, and a call made then changes nothing.
  One call followed by its two settlings is \<^verbatim>\<open>toggleRelay\<close> run to its end.
\<close>

theorem toggleRelay_is_guarded:
  "(relayToggling s \<longrightarrow> toggleRelay relayId r s = (s, None)) \<and>
   (\<not> relayToggling s \<longrightarrow>
      \<not> relayToggling (fst (toggleRelay relayId r s)) \<and> snd (toggleRelay relayId r s) = None \<and>
      toggle_run [ToggleCall relayId, FetchSettles 0 r, JsonSettles 0] (s, []) =
        (fst (toggleRelay relayId r s), []) \<and>
      length (snd (toggle_run evs (s, []))) \<le> 1 \<and>
      in_flight (snd (toggle_run evs (s, []))) \<le> 1 \<and>
      relayToggling (fst (toggle_run evs (s, []))) = (snd (toggle_run evs (s, [])) \<noteq> []) \<and>
      (snd (toggle_run evs (s, [])) \<noteq> [] \<longrightarrow>
         toggle_step (ToggleCall relayId) (toggle_run evs (s, [])) = toggle_run evs (s, [])))"
proof (intro conjI impI)
  assume "relayToggling s"
  then show "toggleRelay relayId r s = (s, None)"
    by (simp add: toggleRelay_def)
next
  assume idle: "\<not> relayToggling s"
  then have inv: "guard_inv (toggle_run evs (s, []))"
    by (intro guard_inv_run) (simp add: guard_inv_def)
  show "\<not> relayToggling (fst (toggleRelay relayId r s))"
    using toggleRelay_completes [OF idle] by simp
  show "snd (toggleRelay relayId r s) = None"
    using toggleRelay_completes [OF idle] by simp
  show "toggle_run [ToggleCall relayId, FetchSettles 0 r, JsonSettles 0] (s, []) =
        (fst (toggleRelay relayId r s), [])"
    by (rule toggle_events_are_toggleRelay [OF idle])
  show len: "length (snd (toggle_run evs (s, []))) \<le> 1"
    using inv by (simp add: guard_inv_def)
  show "in_flight (snd (toggle_run evs (s, []))) \<le> 1"
    using len in_flight_le_length [of "snd (toggle_run evs (s, []))"] by linarith
  show flag: "relayToggling (fst (toggle_run evs (s, []))) = (snd (toggle_run evs (s, [])) \<noteq> [])"
    using inv by (simp add: guard_inv_def)
  assume "snd (toggle_run evs (s, [])) \<noteq> []"
  with flag have "relayToggling (fst (toggle_run evs (s, [])))"
    by simp
  then show "toggle_step (ToggleCall relayId) (toggle_run evs (s, [])) = toggle_run evs (s, [])"
    by (simp add: toggle_step_def)
qed

theorem toggleRelay_is_guarded_witness:
  "toggleRelay ''relay_2'' (Rejected ''offline'') (relay_page\<lparr>relayToggling := True\<rparr>) =
     (relay_page\<lparr>relayToggling := True\<rparr>, None) \<and>
   \<not> relayToggling relay_page \<and>
   \<not> relayToggling (fst (toggleRelay ''relay_1'' (Rejected ''offline'') relay_page)) \<and>
   snd (toggle_run [ToggleCall ''relay_1'', ToggleCall ''relay_2''] (relay_page, [])) =
     [AwaitingFetch ''relay_1''] \<and>
   toggle_step (ToggleCall ''relay_2'')
       (toggle_run [ToggleCall ''relay_1'', ToggleCall ''relay_2''] (relay_page, [])) =
     toggle_run [ToggleCall ''relay_1'', ToggleCall ''relay_2''] (relay_page, [])"
proof -
  have idle: "\<not> relayToggling relay_page"
    by (simp add: relay_page_def initial_page_def)
  have tasks: "snd (toggle_run [ToggleCall ''relay_1'', ToggleCall ''relay_2''] (relay_page, [])) =
     [AwaitingFetch ''relay_1'']"
    using idle by (simp add: toggle_step_def fetch_def)
  show ?thesis
    using idle tasks
      toggleRelay_is_guarded [of "relay_page\<lparr>relayToggling := True\<rparr>" "''relay_2''"
        "Rejected ''offline''" "[]"]
      toggleRelay_is_guarded [of relay_page "''relay_1''" "Rejected ''offline''"
        "[ToggleCall ''relay_1'', ToggleCall ''relay_2'']"]
      toggleRelay_is_guarded [of relay_page "''relay_2''" "Rejected ''offline''"
        "[ToggleCall ''relay_1'', ToggleCall ''relay_2'']"]
    by simp
qed


section \<open>Toggling a relay twice\<close>





























lemma relay_buttons_showAlert [simp]: "relay_buttons (showAlert msg type s) = relay_buttons s"
  by (simp add: showAlert_def)

lemma relay_buttons_fetch [simp]: "relay_buttons (fetch method url b s) = relay_buttons s"
  by (simp add: fetch_def)

lemma relay_buttons_finally [simp]: "relay_buttons (toggleRelay_finally s) = relay_buttons s"
  by (simp add: toggleRelay_finally_def)












section \<open>Saving the settings\<close>

lemma save_section_eq:
  "save_section section kvs promises =
     promises @ map (\<lambda>(key, v). Request ''POST'' ''/api/config/app'' (JsonConfigEntry section key v)) kvs"
  by (induction kvs arbitrary: promises) auto

lemma save_app_eq:
  "save_app cd promises =
     promises @ map (\<lambda>(section, key, v). Request ''POST'' ''/api/config/app'' (JsonConfigEntry section key v))
       (app_entries cd)"
proof (induction cd arbitrary: promises)
  case Nil
  show ?case by (simp add: app_entries_def)
next
  case (Cons entry cd)
  obtain sec sectionData where entry: "entry = (sec, sectionData)" by (cases entry)
  have step: "app_entries ((sec, sectionData) # cd) =
      (if sec = ''plugins'' then [] else map (\<lambda>(key, v). (sec, key, v)) sectionData)
      @ app_entries cd"
    by (simp add: app_entries_def)
  show ?case
    by (simp add: entry Cons.IH save_section_eq step case_prod_unfold comp_def)
qed

lemma save_plugins_eq:
  "save_plugins plugins promises =
     promises @ map (\<lambda>(pluginName, pluginConfig).
              Request ''POST'' (''/api/config/plugins/'' @ pluginName) (JsonPluginConfig pluginConfig)) plugins"
  by (induction plugins arbitrary: promises) auto

lemma save_promises_eq: "save_promises cd = flush_requests cd"
  by (simp add: save_promises_def flush_requests_def plugin_entries_def save_app_eq save_plugins_eq
      Let_def split: option.splits)

lemma promise_all_resolved: "all_resolve n net \<Longrightarrow> promise_all n net = None"
proof -
  assume "all_resolve n net"
  then have "\<forall>i \<in> set [0..<n]. rejection (net i) = None"
    by (simp add: all_resolve_def list_all_iff)
  then have "List.map_filter (\<lambda>i. rejection (net i)) [0..<n] = []"
    by (induction n) (simp_all add: List.map_filter_def)
  then show ?thesis
    by (simp add: promise_all_def)
qed

lemma length_flush_requests:
  "length (flush_requests cd) = length (app_entries cd) + length (plugin_entries cd)"
  by (simp add: flush_requests_def)

text \<open>
  C6. For every pending-edits map \<^verbatim>\<open>saveConfig\<close> sends, after what was sent before,
  exactly one POST to \<^verbatim>\<open>/api/config/app\<close> for each (section, key, value) entry
  outside \<^verbatim>\<open>plugins\<close> and one POST to \<^verbatim>\<open>/api/config/plugins/<name>\<close> for
  each plugin entry, in the order of the map; it never throws; and when every one of
  these requests resolves, the map is empty afterwards, the modal is closed and the
  success toast is shown.
\<close>

theorem saveConfig_flushes:
  "requests (fst (saveConfig net s)) = requests s @ flush_requests (configData s) \<and>
   length (flush_requests (configData s)) =
     length (app_entries (configData s)) + length (plugin_entries (configData s)) \<and>
   snd (saveConfig net s) = None \<and>
   (all_resolve (length (flush_requests (configData s))) net \<longrightarrow>
      configData (fst (saveConfig net s)) = [] \<and>
      \<not> configModal_active (fst (saveConfig net s)) \<and>
      alertArea (fst (saveConfig net s)) =
        alertArea s @ [(Some ''Configuration saved successfully'', ''success'')])"
proof (intro conjI impI)
  show "requests (fst (saveConfig net s)) = requests s @ flush_requests (configData s)"
    by (simp add: saveConfig_def Let_def save_promises_eq closeConfigModal_def showAlert_def
        split: option.splits)
  show "length (flush_requests (configData s)) =
     length (app_entries (configData s)) + length (plugin_entries (configData s))"
    by (rule length_flush_requests)
  show "snd (saveConfig net s) = None"
    by (simp add: saveConfig_def Let_def split: option.splits)
next
  assume "all_resolve (length (flush_requests (configData s))) net"
  then have ok: "promise_all (length (save_promises (configData s))) net = None"
    by (simp add: save_promises_eq promise_all_resolved)
  show "configData (fst (saveConfig net s)) = []"
    using ok by (simp add: saveConfig_def Let_def closeConfigModal_def)
  show "\<not> configModal_active (fst (saveConfig net s))"
    using ok by (simp add: saveConfig_def Let_def closeConfigModal_def)
  show "alertArea (fst (saveConfig net s)) =
        alertArea s @ [(Some ''Configuration saved successfully'', ''success'')]"
    using ok by (simp add: saveConfig_def Let_def closeConfigModal_def showAlert_def)
qed

lemma configData_edited:
  "configData edited_page =
     [(''interface'', [(''update_interval'', Leaf 5000)]),
      (''printer'', [(''baudrate'', Leaf 115200)]),
      (''plugins'', [(''relay_controller'', Node [(''show_in_status'', 1)])])]"
  by (simp add: edited_page_def updatePluginConfigValue_def updateConfigValue_def openConfigModal_def
      loadConfigTab_send_def fetch_def initial_page_def ensure_plugin_def set_plugin_key_def Let_def)

lemma flush_edited:
  "flush_requests (configData edited_page) =
     [Request ''POST'' ''/api/config/app'' (JsonConfigEntry ''interface'' ''update_interval'' (Leaf 5000)),
      Request ''POST'' ''/api/config/app'' (JsonConfigEntry ''printer'' ''baudrate'' (Leaf 115200)),
      Request ''POST'' ''/api/config/plugins/relay_controller''
        (JsonPluginConfig (Node [(''show_in_status'', 1)]))]"
  by (simp add: configData_edited flush_requests_def app_entries_def plugin_entries_def)

lemma requests_edited:
  "requests edited_page = [Request ''GET'' ''/api/config/app'' NoBody]"
  by (simp add: edited_page_def updatePluginConfigValue_def updateConfigValue_def openConfigModal_def
      loadConfigTab_send_def fetch_def initial_page_def Let_def)

lemma upt_3: "[0..<3] = [0, 1, 2]"
  by (simp add: upt_rec)

theorem saveConfig_flushes_witness:
  "all_resolve 3 all_ok \<and>
   requests (fst (saveConfig all_ok edited_page)) =
     [Request ''GET'' ''/api/config/app'' NoBody,
      Request ''POST'' ''/api/config/app'' (JsonConfigEntry ''interface'' ''update_interval'' (Leaf 5000)),
      Request ''POST'' ''/api/config/app'' (JsonConfigEntry ''printer'' ''baudrate'' (Leaf 115200)),
      Request ''POST'' ''/api/config/plugins/relay_controller''
        (JsonPluginConfig (Node [(''show_in_status'', 1)]))] \<and>
   configData (fst (saveConfig all_ok edited_page)) = [] \<and>
   \<not> configModal_active (fst (saveConfig all_ok edited_page))"
proof -
  have ok3: "all_resolve 3 all_ok"
    by (simp add: all_resolve_def all_ok_def rejection_def upt_3)
  have len: "length (flush_requests (configData edited_page)) = 3"
    by (simp add: flush_edited)
  have ok: "all_resolve (length (flush_requests (configData edited_page))) all_ok"
    by (simp only: len ok3)
  have sent: "requests edited_page @ flush_requests (configData edited_page) =
     [Request ''GET'' ''/api/config/app'' NoBody,
      Request ''POST'' ''/api/config/app'' (JsonConfigEntry ''interface'' ''update_interval'' (Leaf 5000)),
      Request ''POST'' ''/api/config/app'' (JsonConfigEntry ''printer'' ''baudrate'' (Leaf 115200)),
      Request ''POST'' ''/api/config/plugins/relay_controller''
        (JsonPluginConfig (Node [(''show_in_status'', 1)]))]"
    by (simp only: flush_edited requests_edited append.simps)
  show ?thesis
    using ok ok3 saveConfig_flushes [of all_ok edited_page]
    by (simp only: sent simp_thms)
qed


section \<open>Cancel and reset\<close>

lemma closeConfigModal_keeps_edits: "configData (closeConfigModal s) = configData s"
  by (simp add: closeConfigModal_def)

lemma openConfigModal_keeps_edits: "configData (openConfigModal s) = configData s"
  by (simp add: openConfigModal_def loadConfigTab_send_def fetch_def)

lemma resetConfig_discards:
  "success result \<Longrightarrow>
   configData (fst (resetConfig True (Response ok code (Inr result)) s)) = []"
  by (simp add: resetConfig_def Let_def await_json_def loadConfigTab_send_def fetch_def showAlert_def)

lemma resetConfig_keeps_edits_otherwise:
  "configData (fst (resetConfig False r s)) = configData s"
  "\<not> success result \<Longrightarrow>
   configData (fst (resetConfig True (Response ok code (Inr result)) s)) = configData s"
  "configData (fst (resetConfig True (Rejected m) s)) = configData s"
  by (simp_all add: resetConfig_def Let_def await_json_def fetch_def showAlert_def)

text \<open>
  C2, at the failing input: three edits are made in the open modal, Cancel is pressed,
  the modal is opened again and Save is pressed. Cancel leaves all three edits in
  \<^verbatim>\<open>configData\<close>, and the later Save posts them.
\<close>

theorem cancel_keeps_pending_edits:
  "configData (closeConfigModal edited_page) =
     [(''interface'', [(''update_interval'', Leaf 5000)]),
      (''printer'', [(''baudrate'', Leaf 115200)]),
      (''plugins'', [(''relay_controller'', Node [(''show_in_status'', 1)])])] \<and>
   requests (fst (saveConfig all_ok (openConfigModal (closeConfigModal edited_page)))) =
     [Request ''GET'' ''/api/config/app'' NoBody,
      Request ''GET'' ''/api/config/app'' NoBody,
      Request ''POST'' ''/api/config/app'' (JsonConfigEntry ''interface'' ''update_interval'' (Leaf 5000)),
      Request ''POST'' ''/api/config/app'' (JsonConfigEntry ''printer'' ''baudrate'' (Leaf 115200)),
      Request ''POST'' ''/api/config/plugins/relay_controller''
        (JsonPluginConfig (Node [(''show_in_status'', 1)]))]"
proof -
  define s where "s = openConfigModal (closeConfigModal edited_page)"
  have cd: "configData s = configData edited_page"
    by (simp add: s_def openConfigModal_keeps_edits closeConfigModal_keeps_edits)
  have tab: "currentConfigTab edited_page = ''general''"
    by (simp add: edited_page_def updatePluginConfigValue_def updateConfigValue_def openConfigModal_def
      loadConfigTab_send_def fetch_def initial_page_def Let_def)
  have rq: "requests s = [Request ''GET'' ''/api/config/app'' NoBody, Request ''GET'' ''/api/config/app'' NoBody]"
    by (simp add: s_def openConfigModal_def closeConfigModal_def loadConfigTab_send_def tab requests_edited)
  have "requests (fst (saveConfig all_ok s)) = requests s @ save_promises (configData s)"
    by (simp add: saveConfig_def Let_def closeConfigModal_def showAlert_def split: option.splits)
  then have "requests (fst (saveConfig all_ok s)) =
      requests s @ flush_requests (configData edited_page)"
    by (simp only: cd save_promises_eq)
  then have sent: "requests (fst (saveConfig all_ok s)) =
     [Request ''GET'' ''/api/config/app'' NoBody,
      Request ''GET'' ''/api/config/app'' NoBody,
      Request ''POST'' ''/api/config/app'' (JsonConfigEntry ''interface'' ''update_interval'' (Leaf 5000)),
      Request ''POST'' ''/api/config/app'' (JsonConfigEntry ''printer'' ''baudrate'' (Leaf 115200)),
      Request ''POST'' ''/api/config/plugins/relay_controller''
        (JsonPluginConfig (Node [(''show_in_status'', 1)]))]"
    by (simp only: rq flush_edited append.simps)
  have kept: "configData (closeConfigModal edited_page) =
     [(''interface'', [(''update_interval'', Leaf 5000)]),
      (''printer'', [(''baudrate'', Leaf 115200)]),
      (''plugins'', [(''relay_controller'', Node [(''show_in_status'', 1)])])]"
    by (simp only: closeConfigModal_keeps_edits configData_edited)
  from kept sent show ?thesis
    by (simp only: s_def simp_thms)
qed


section \<open>Network failures\<close>


lemma alertArea_log_error [simp]: "alertArea (log_error label detail s) = alertArea s"
  by (simp add: log_error_def)

lemma alertArea_updateFiles [simp]: "alertArea (updateFiles_send s) = alertArea s"
  by (simp add: updateFiles_send_def)

lemma alertArea_loadConfigTab [simp]: "alertArea (loadConfigTab_send tabName s) = alertArea s"
  by (simp add: loadConfigTab_send_def)

lemma alertArea_finally [simp]: "alertArea (toggleRelay_finally s) = alertArea s"
  by (simp add: toggleRelay_finally_def)

lemma alertArea_updateRelayButtonState [simp]:
  "alertArea (updateRelayButtonState relayId st s) = alertArea s"
  by (simp add: updateRelayButtonState_def split: option.splits)

lemma await_json_Rejected [simp]: "await_json (Rejected m) = Inl (Error m)"
  by (simp add: await_json_def)

lemma await_json_body [simp]: "await_json (Response ok code (Inr v)) = Inr v"
  by (simp add: await_json_def)













lemma alertArea_generateGeneralConfig [simp]:
  "alertArea (fst (generateGeneralConfig r s)) = alertArea s"
  by (simp add: generateGeneralConfig_def Let_def split: sum.splits option.splits)

lemma alertArea_generatePrinterConfig [simp]:
  "alertArea (fst (generatePrinterConfig r s)) = alertArea s"
  by (simp add: generatePrinterConfig_def Let_def split: sum.splits option.splits)

lemma alertArea_generateInterfaceConfig [simp]:
  "alertArea (fst (generateInterfaceConfig r s)) = alertArea s"
  by (simp add: generateInterfaceConfig_def Let_def split: sum.splits option.splits)

lemma alertArea_generatePluginsConfig [simp]:
  "alertArea (fst (generatePluginsConfig r r' s)) = alertArea s"
  by (simp add: generatePluginsConfig_def Let_def split: sum.splits option.splits)

lemma alertArea_loadPluginConfigTab [simp]:
  "alertArea (loadPluginConfigTab tabId r s) = alertArea s"
  by (simp add: loadPluginConfigTab_def Let_def split: sum.splits option.splits tab_content.splits)









lemma selectedFile_edited: "selectedFile (edited_page\<lparr>selectedFile := Some ''cube.ctb''\<rparr>) = Some ''cube.ctb''"
  by simp



section \<open>Application-level failures\<close>

lemma toggleRelay_app_failure:
  "\<not> relayToggling s \<Longrightarrow> \<not> success result \<Longrightarrow>
   alertArea (fst (toggleRelay relayId (Response True code (Inr result)) s)) =
     alertArea s @ [(Some (if truthy_string (message result) then js_str (message result)
                           else ''Failed to toggle relay''), ''error'')]"
  by (simp add: toggleRelay_def toggleRelay_fetched_def toggleRelay_parsed_def Let_def)

lemma setRelayState_app_failure:
  "\<not> success result \<Longrightarrow>
   alertArea (fst (setRelayState relayId st (Response True code (Inr result)) s)) = alertArea s \<and>
   snd (setRelayState relayId st (Response True code (Inr result)) s) = False"
  by (simp add: setRelayState_def await_ok_json_def Let_def)

lemma error_field_surfaced:
  assumes "\<not> success result"
  shows
    "alertArea (fst (togglePlugin pluginName enable (Response ok code (Inr result)) s)) =
       alertArea s @ [(error result, ''error'')]"
    "alertArea (fst (reloadPlugin pluginName (Response ok code (Inr result)) s)) =
       alertArea s @ [(error result, ''error'')]"
    "alertArea (fst (selectFile filename (Response ok code (Inr result)) s)) =
       alertArea s @ [(error result, ''error'')]"
    "alertArea (fst (deleteFile True filename (Response ok code (Inr result)) s)) =
       alertArea s @ [(error result, ''error'')]"
  using assms
  by (simp_all add: togglePlugin_def reloadPlugin_def selectFile_def deleteFile_def Let_def)

lemma message_field_surfaced:
  assumes "\<not> success result"
  shows
    "alertArea (fst (connectPrinter (Response ok code (Inr result)) s)) =
       alertArea s @ [(if truthy_string (message result) then message result else error result,
                      ''error'')]"
    "alertArea (fst (disconnectPrinter (Response ok code (Inr result)) s)) =
       alertArea s @ [(message result, ''error'')]"
    "alertArea (fst (printFile filename (Response ok code (Inr result)) s)) =
       alertArea s @ [(message result, ''error'')]"
    "alertArea (fst (pausePrint (Response ok code (Inr result)) s)) =
       alertArea s @ [(message result, ''error'')]"
    "alertArea (fst (resumePrint (Response ok code (Inr result)) s)) =
       alertArea s @ [(message result, ''error'')]"
    "alertArea (fst (stopPrint True (Response ok code (Inr result)) s)) =
       alertArea s @ [(message result, ''error'')]"
    "alertArea (fst (homeZ (Response ok code (Inr result)) s)) =
       alertArea s @ [(message result, ''error'')]"
    "alertArea (fst (moveZ js distance (Response ok code (Inr result)) s)) =
       alertArea s @ [(message result, ''error'')]"
    "alertArea (fst (recoverUSB (Response ok code (Inr result)) s)) =
       alertArea s @ [(message result, ''error'')]"
  using assms
  by (simp_all add: connectPrinter_def disconnectPrinter_def printFile_def pausePrint_def
      resumePrint_def stopPrint_def homeZ_def moveZ_def recoverUSB_def alert_type_def Let_def)

lemma fixed_text_shown:
  assumes "\<not> success result"
  shows
    "alertArea (fst (resetConfig True (Response ok code (Inr result)) s)) =
       alertArea s @ [(Some ''Failed to reset configuration'', ''error'')]"
    "alertArea (fst (uploadFiles js files (Response ok code (Inr result)) s)) =
       alertArea s @ [(Some ''Uploading...'', ''warning''), (Some ''Upload failed'', ''error'')]"
    "alertArea (fst (cleanupFiles js True (Response ok code (Inr result)) s)) =
       alertArea s @ [(Some ''Cleanup failed'', ''error'')]"
  using assms
  by (simp_all add: resetConfig_def uploadFiles_def cleanupFiles_def Let_def)

text \<open>
  C5 (as amended). On an application-level failure (a parsed body with \<^verbatim>\<open>success\<close>
  false) the server's string is shown verbatim as one error toast by: \<^verbatim>\<open>toggleRelay\<close>,
  when the call passes its guard (\<^verbatim>\<open>data.message\<close>, when it is present and not empty;
  otherwise the fixed text \<^verbatim>\<open>Failed to toggle relay\<close>); \<^verbatim>\<open>togglePlugin\<close>, \<^verbatim>\<open>reloadPlugin\<close>,
  \<^verbatim>\<open>selectFile\<close> and a confirmed \<^verbatim>\<open>deleteFile\<close> (\<^verbatim>\<open>result.error\<close>);
  \<^verbatim>\<open>connectPrinter\<close> (\<^verbatim>\<open>result.message\<close>, or \<^verbatim>\<open>result.error\<close> when the message is
  absent or empty); \<^verbatim>\<open>disconnectPrinter\<close>, \<^verbatim>\<open>printFile\<close>, \<^verbatim>\<open>pausePrint\<close>,
  \<^verbatim>\<open>resumePrint\<close>, a confirmed \<^verbatim>\<open>stopPrint\<close>, \<^verbatim>\<open>homeZ\<close>, \<^verbatim>\<open>moveZ\<close> and
  \<^verbatim>\<open>recoverUSB\<close> (\<^verbatim>\<open>result.message\<close>). \<^verbatim>\<open>setRelayState\<close> shows no toast and
  returns false; \<^verbatim>\<open>resetConfig\<close>, \<^verbatim>\<open>uploadFiles\<close> and \<^verbatim>\<open>cleanupFiles\<close> show a
  fixed text.
\<close>

theorem application_failure_toasts:
  assumes "\<not> success result"
  shows
   "(\<not> relayToggling s \<longrightarrow>
       alertArea (fst (toggleRelay relayId (Response True code (Inr result)) s)) =
         alertArea s @ [(Some (if truthy_string (message result) then js_str (message result)
                               else ''Failed to toggle relay''), ''error'')]) \<and>
    (\<not> relayToggling s \<and> message result = Some msg \<and> msg \<noteq> [] \<longrightarrow>
       alertArea (fst (toggleRelay relayId (Response True code (Inr result)) s)) =
         alertArea s @ [(Some msg, ''error'')]) \<and>
    alertArea (fst (togglePlugin pluginName enable (Response ok code (Inr result)) s)) =
      alertArea s @ [(error result, ''error'')] \<and>
    alertArea (fst (reloadPlugin pluginName (Response ok code (Inr result)) s)) =
      alertArea s @ [(error result, ''error'')] \<and>
    alertArea (fst (selectFile filename (Response ok code (Inr result)) s)) =
      alertArea s @ [(error result, ''error'')] \<and>
    alertArea (fst (deleteFile True filename (Response ok code (Inr result)) s)) =
      alertArea s @ [(error result, ''error'')] \<and>
    alertArea (fst (connectPrinter (Response ok code (Inr result)) s)) =
      alertArea s @ [(if truthy_string (message result) then message result else error result,
                     ''error'')] \<and>
    alertArea (fst (disconnectPrinter (Response ok code (Inr result)) s)) =
      alertArea s @ [(message result, ''error'')] \<and>
    alertArea (fst (printFile filename (Response ok code (Inr result)) s)) =
      alertArea s @ [(message result, ''error'')] \<and>
    alertArea (fst (pausePrint (Response ok code (Inr result)) s)) =
      alertArea s @ [(message result, ''error'')] \<and>
    alertArea (fst (resumePrint (Response ok code (Inr result)) s)) =
      alertArea s @ [(message result, ''error'')] \<and>
    alertArea (fst (stopPrint True (Response ok code (Inr result)) s)) =
      alertArea s @ [(message result, ''error'')] \<and>
    alertArea (fst (homeZ (Response ok code (Inr result)) s)) =
      alertArea s @ [(message result, ''error'')] \<and>
    alertArea (fst (moveZ js distance (Response ok code (Inr result)) s)) =
      alertArea s @ [(message result, ''error'')] \<and>
    alertArea (fst (recoverUSB (Response ok code (Inr result)) s)) =
      alertArea s @ [(message result, ''error'')] \<and>
    (alertArea (fst (setRelayState relayId st (Response True code (Inr result)) s)) = alertArea s \<and>
     snd (setRelayState relayId st (Response True code (Inr result)) s) = False) \<and>
    alertArea (fst (resetConfig True (Response ok code (Inr result)) s)) =
      alertArea s @ [(Some ''Failed to reset configuration'', ''error'')] \<and>
    alertArea (fst (uploadFiles js files (Response ok code (Inr result)) s)) =
      alertArea s @ [(Some ''Uploading...'', ''warning''), (Some ''Upload failed'', ''error'')] \<and>
    alertArea (fst (cleanupFiles js True (Response ok code (Inr result)) s)) =
      alertArea s @ [(Some ''Cleanup failed'', ''error'')]"
proof -
  have toggle: "\<not> relayToggling s \<longrightarrow>
       alertArea (fst (toggleRelay relayId (Response True code (Inr result)) s)) =
         alertArea s @ [(Some (if truthy_string (message result) then js_str (message result)
                               else ''Failed to toggle relay''), ''error'')]"
    using toggleRelay_app_failure [OF _ assms] by blast
  have verbatim: "\<not> relayToggling s \<and> message result = Some msg \<and> msg \<noteq> [] \<longrightarrow>
       alertArea (fst (toggleRelay relayId (Response True code (Inr result)) s)) =
         alertArea s @ [(Some msg, ''error'')]"
    using toggle by (simp add: truthy_string_def js_str_def)
  show ?thesis
    using toggle verbatim setRelayState_app_failure [OF assms, of relayId st code s]
    by (simp only: error_field_surfaced [OF assms] message_field_surfaced [OF assms]
        fixed_text_shown [OF assms] simp_thms)
qed

text \<open>
  The claim as stated, for every operation: \<^verbatim>\<open>setRelayState\<close> is told
  \<^verbatim>\<open>{success: false, message: "GPIO busy"}\<close> and shows no toast.
\<close>

theorem setRelayState_no_toast_counterexample:
  "alertArea (fst (setRelayState ''relay_1'' True
      (Response True 200 (Inr (failed_reply (Some ''GPIO busy'') None))) relay_page)) = [] \<and>
   snd (setRelayState ''relay_1'' True
      (Response True 200 (Inr (failed_reply (Some ''GPIO busy'') None))) relay_page) = False \<and>
   console_error (fst (setRelayState ''relay_1'' True
      (Response True 200 (Inr (failed_reply (Some ''GPIO busy'') None))) relay_page)) =
     [(''Failed to set relay state:'', ''GPIO busy'')]"
  by (simp add: setRelayState_def await_ok_json_def failed_reply_def Let_def log_error_def fetch_def
      js_str_def relay_page_def initial_page_def)

theorem application_failure_toasts_witness:
  "\<not> success (failed_reply (Some ''Printer busy'') (Some ''E42'')) \<and>
   \<not> relayToggling relay_page \<and>
   alertArea (fst (toggleRelay ''relay_1''
      (Response True 200 (Inr (failed_reply (Some ''Printer busy'') (Some ''E42'')))) relay_page)) =
     [(Some ''Printer busy'', ''error'')] \<and>
   alertArea (fst (togglePlugin ''relay_controller'' True
      (Response True 200 (Inr (failed_reply (Some ''Printer busy'') (Some ''E42'')))) relay_page)) =
     [(Some ''E42'', ''error'')] \<and>
   alertArea (fst (pausePrint
      (Response True 200 (Inr (failed_reply (Some ''Printer busy'') (Some ''E42'')))) relay_page)) =
     [(Some ''Printer busy'', ''error'')] \<and>
   alertArea (fst (setRelayState ''relay_1'' True
      (Response True 200 (Inr (failed_reply (Some ''Printer busy'') (Some ''E42'')))) relay_page)) = []"
proof -
  have failed: "\<not> success (failed_reply (Some ''Printer busy'') (Some ''E42''))"
    by (simp add: failed_reply_def)
  have idle: "\<not> relayToggling relay_page"
    by (simp add: relay_page_def initial_page_def)
  have fields: "message (failed_reply (Some ''Printer busy'') (Some ''E42'')) = Some ''Printer busy''"
    "error (failed_reply (Some ''Printer busy'') (Some ''E42'')) = Some ''E42''"
    by (simp_all add: failed_reply_def)
  have none: "alertArea relay_page = []"
    by (simp add: relay_page_def initial_page_def)
  show ?thesis
    using failed idle
      application_failure_toasts [OF failed, of relay_page "''relay_1''" 200 "''Printer busy''"
        "''relay_controller''" True True "''cube.ctb''" nat_js 10 True "[''cube.ctb'']"]
    by (simp add: fields none truthy_string_def js_str_def)
qed

end
